theory Spec2Isabelle
  imports Main
begin

section \<open>Node server of the GCE persistent-disk CSI driver (pkg/gce-pd-csi-driver/node.go)\<close>

text \<open>
  The node server is embedded with explicit state passing. The state holds the per-volume
  lock set, the device-in-use record map and the history of effectful collaborator calls.
  Collaborators that live outside node.go (mounter, device utilities, metadata service,
  cache layer, cluster client) are fields of the server record: each maps the history so
  far and its arguments to the outcome the call has. A Go \<open>error\<close> is a
  \<open>string option\<close> (\<open>None\<close> is \<open>nil\<close>); an \<open>int64\<close> is an \<open>int\<close>, since
  node.go only compares and parses such values and never does arithmetic on them.
\<close>

subsection \<open>gRPC status codes and Go errors\<close>

datatype codes = InvalidArgument | Aborted | Internal | DataLoss | NotFound | Unknown

type_synonym error = string

text \<open>An error that may carry a gRPC status; \<open>status.FromError\<close> reads its code.\<close>

datatype go_error = GoError string | GrpcStatus codes string

fun statusCode :: "go_error \<Rightarrow> codes" where
  "statusCode (GoError m) = Unknown"
| "statusCode (GrpcStatus c m) = c"

subsection \<open>Constants of node.go\<close>

definition volumeLimitSmall :: int where "volumeLimitSmall = 15"
definition volumeLimitBig :: int where "volumeLimitBig = 127"
definition x4HyperdiskLimit :: int where "x4HyperdiskLimit = 39"
definition a4HyperdiskLimit :: int where "a4HyperdiskLimit = 127"
definition defaultLinuxFsType :: string where "defaultLinuxFsType = ''ext4''"
definition defaultWindowsFsType :: string where "defaultWindowsFsType = ''ntfs''"
definition fsTypeExt3 :: string where "fsTypeExt3 = ''ext3''"
definition fsTypeBtrfs :: string where "fsTypeBtrfs = ''btrfs''"

subsection \<open>Go library functions used by node.go\<close>

definition HasPrefix :: "string \<Rightarrow> string \<Rightarrow> bool" where
  "HasPrefix s prefix = (take (length prefix) s = prefix)"

definition HasSuffix :: "string \<Rightarrow> string \<Rightarrow> bool" where
  "HasSuffix s suffix = (length suffix \<le> length s \<and> drop (length s - length suffix) s = suffix)"

definition TrimSuffix :: "string \<Rightarrow> string \<Rightarrow> string" where
  "TrimSuffix s suffix = (if HasSuffix s suffix then take (length s - length suffix) s else s)"

text \<open>\<open>strings.Split(s, sep)\<close> for a one-character separator: always at least one field.\<close>

fun Split :: "string \<Rightarrow> char \<Rightarrow> string list" where
  "Split [] sep = [[]]"
| "Split (c # cs) sep =
     (if c = sep then [] # Split cs sep
      else (case Split cs sep of
              [] \<Rightarrow> [[c]]
            | w # ws \<Rightarrow> (c # w) # ws))"

definition isDigit :: "char \<Rightarrow> bool" where
  "isDigit c = (c \<in> set ''0123456789'')"

definition digitVal :: "char \<Rightarrow> nat" where
  "digitVal c = of_char c - 48"

text \<open>
  \<open>strconv.ParseUint(s, 10, 64)\<close> and \<open>strconv.ParseInt(s, 10, 64)\<close> (bit size 0 is the
  64-bit \<open>int\<close>). \<open>None\<close> stands for any \<open>*NumError\<close>, syntax or range: node.go drops
  the value that comes with an error. The digits are accumulated without a bound and the
  range is checked at the end, which is where Go's range error ends up as well.
\<close>

fun ParseUint_digits :: "nat \<Rightarrow> string \<Rightarrow> nat option" where
  "ParseUint_digits n [] = Some n"
| "ParseUint_digits n (c # cs) =
     (if isDigit c then ParseUint_digits (n * 10 + digitVal c) cs else None)"

definition ParseUint :: "string \<Rightarrow> nat option" where
  "ParseUint s = (if s = [] then None else ParseUint_digits 0 s)"

definition ParseInt :: "string \<Rightarrow> int option" where
  "ParseInt s =
     (if s = [] then None
      else
        let neg = (hd s = CHR ''-'');
            s1 = (if hd s = CHR ''+'' \<or> hd s = CHR ''-'' then tl s else s)
        in (case ParseUint s1 of
              None \<Rightarrow> None
            | Some un \<Rightarrow>
                if \<not> neg \<and> un \<ge> 2 ^ 63 then None
                else if neg \<and> un > 2 ^ 63 then None
                else Some (if neg then - int un else int un)))"

subsection \<open>The mount-flag patterns\<close>

text \<open>
  \<open>FindStringSubmatch\<close> of the three compiled patterns, as the captured group when the
  flag matches (the Go result then has length 2) and \<open>None\<close> otherwise. In Go's syntax
  \<open>.\<close> matches any character but a newline, \<open>$\<close> only the end of the text and
  \<open>\d\<close> an ASCII digit.
\<close>

definition readAheadKBMountFlagRegex :: "string \<Rightarrow> string option" where
  "readAheadKBMountFlagRegex flag =
     (let p = ''read_ahead_kb=''; v = drop (length p) flag
      in if take (length p) flag = p \<and> v \<noteq> [] \<and> CHR 0x0A \<notin> set v then Some v else None)"

definition digits12 :: "string \<Rightarrow> string \<Rightarrow> string option" where
  "digits12 p flag =
     (let v = drop (length p) flag
      in if take (length p) flag = p \<and> (length v = 1 \<or> length v = 2) \<and> list_all isDigit v
         then Some v else None)"

definition btrfsReclaimDataRegex :: "string \<Rightarrow> string option" where
  "btrfsReclaimDataRegex flag = digits12 ''btrfs-allocation-data-bg_reclaim_threshold='' flag"

definition btrfsReclaimMetadataRegex :: "string \<Rightarrow> string option" where
  "btrfsReclaimMetadataRegex flag =
     digits12 ''btrfs-allocation-metadata-bg_reclaim_threshold='' flag"

fun extractBtrfsReclaimFlags_loop :: "string \<Rightarrow> string \<Rightarrow> string list \<Rightarrow> string \<times> string" where
  "extractBtrfsReclaimFlags_loop reclaimData reclaimMetadata [] = (reclaimData, reclaimMetadata)"
| "extractBtrfsReclaimFlags_loop reclaimData reclaimMetadata (mountFlag # rest) =
     (case btrfsReclaimDataRegex mountFlag of
        Some got \<Rightarrow> extractBtrfsReclaimFlags_loop got reclaimMetadata rest
      | None \<Rightarrow>
          (case btrfsReclaimMetadataRegex mountFlag of
             Some got \<Rightarrow> extractBtrfsReclaimFlags_loop reclaimData got rest
           | None \<Rightarrow> extractBtrfsReclaimFlags_loop reclaimData reclaimMetadata rest))"

definition extractBtrfsReclaimFlags :: "string list \<Rightarrow> string \<times> string" where
  "extractBtrfsReclaimFlags mountFlags = extractBtrfsReclaimFlags_loop [] [] mountFlags"

fun extractReadAheadKBMountFlag :: "string list \<Rightarrow> int \<times> bool \<times> error option" where
  "extractReadAheadKBMountFlag [] = (-1, False, None)"
| "extractReadAheadKBMountFlag (mountFlag # rest) =
     (case readAheadKBMountFlagRegex mountFlag of
        Some readAheadKB \<Rightarrow>
          (case ParseInt readAheadKB of
             None \<Rightarrow> (-1, False, Some ''invalid read_ahead_kb mount flag'')
           | Some readAheadKBInt \<Rightarrow>
               if readAheadKBInt < 0
               then (-1, False, Some ''invalid negative value for read_ahead_kb mount flag'')
               else (readAheadKBInt, True, None))
      | None \<Rightarrow> extractReadAheadKBMountFlag rest)"

text \<open>
  Modelled from the spec: \<open>collectMountOptions\<close> is declared outside node.go. The spec's
  mount-option pipeline filters the embedded pseudo-flags out of the raw flag list:
  the filtered options hold no token matching the read-ahead or the btrfs-reclaim
  patterns. The spec says nothing else about the function, so nothing else is modelled.
\<close>

definition isTunableFlag :: "string \<Rightarrow> bool" where
  "isTunableFlag flag =
     (readAheadKBMountFlagRegex flag \<noteq> None \<or> btrfsReclaimDataRegex flag \<noteq> None
      \<or> btrfsReclaimMetadataRegex flag \<noteq> None)"

definition collectMountOptions :: "string \<Rightarrow> string list \<Rightarrow> string list" where
  "collectMountOptions fsType mntFlags = filter (\<lambda>opt. \<not> isTunableFlag opt) mntFlags"

subsection \<open>Requests, capabilities, effects and the server\<close>

datatype access_type = MountAccess string "string list" | BlockAccess | NoAccess

record VolumeCapability =
  AccessType :: access_type
  AccessMode :: nat

record NodeStageVolumeRequest =
  stage_VolumeId :: string
  stage_StagingTargetPath :: string
  stage_VolumeCapability :: "VolumeCapability option"
  stage_PublishContext :: "string \<rightharpoonup> string"
  stage_VolumeContext :: "string \<rightharpoonup> string"

record NodePublishVolumeRequest =
  publish_VolumeId :: string
  publish_StagingTargetPath :: string
  publish_TargetPath :: string
  publish_VolumeCapability :: "VolumeCapability option"
  publish_Readonly :: bool
  publish_VolumeContext :: "string \<rightharpoonup> string"

record NodeUnpublishVolumeRequest =
  unpublish_VolumeId :: string
  unpublish_TargetPath :: string

record NodeUnstageVolumeRequest =
  unstage_VolumeId :: string
  unstage_StagingTargetPath :: string

record NodeExpandVolumeRequest =
  expand_VolumeId :: string
  expand_VolumePath :: string
  expand_CapacityRange :: "(int \<times> int) option"
  expand_VolumeCapability :: "VolumeCapability option"

record NodeExpandVolumeResponse =
  CapacityBytes :: int

record NodeGetInfoResponse =
  NodeId :: string
  MaxVolumesPerNode :: int
  AccessibleTopology :: "(string \<times> string) list"

text \<open>The effectful collaborator calls, as they are recorded in the history.\<close>

datatype event =
    PrepareStagePathEv string
  | PreparePublishPathEv string
  | SetupCachingEv string string
  | FormatAndMountEv string string string "string list"
  | MountEv string string string "string list"
  | UnmountEv string
  | OpenFileEv string
  | WriteFileEv string string
  | CloseFileEv string
  | RemoveEv string
  | ResizeEv string string
  | SetReadAheadKBEv string int
  | BlkidEv string
  | CleanupPublishPathEv string
  | CleanupStagePathEv string
  | CleanupCacheEv string string

type_synonym history = "event list"

record node_state =
  volumeLocks :: "string set"
  deviceInUseErrors :: "string \<rightharpoonup> int"
  trace :: history

definition log :: "event \<Rightarrow> node_state \<Rightarrow> node_state" where
  "log ev st = st\<lparr>trace := trace st @ [ev]\<rparr>"

record GCENodeServer =
  EnableDataCache :: bool
  DataCacheEnabledNodePool :: bool
  SysfsPath :: string
  enableDeviceInUseCheck :: bool
  deviceInUseTimeout :: int
  GOOS :: string
  GetName :: string
  GetZone :: string
  GetProject :: string
  GetMachineType :: string
  timeNow :: int
  ContextDataCacheSize :: string
  ContextDataCacheMode :: string
  VolumeAttributePartition :: string
  TopologyKeyZone :: string
  AttachLimitOverrideLabelKey :: string
  CreateNodeID :: "string \<Rightarrow> string \<Rightarrow> string \<Rightarrow> string"
  GetHyperdiskAttachLimit :: "string \<Rightarrow> int \<Rightarrow> int"
  InClusterConfig :: "error option"
  NewForConfig :: "error option"
  getNodeWithRetry :: "string \<Rightarrow> (string \<rightharpoonup> string) \<times> error option"
  validateVolumeCapability :: "VolumeCapability \<Rightarrow> error option"
  getReadOnlyFromCapability :: "VolumeCapability \<Rightarrow> bool \<times> error option"
  getRequestCapacity :: "(int \<times> int) option \<Rightarrow> int \<times> error option"
  VolumeIDToKey :: "string \<Rightarrow> error option"
  getDevicePath :: "history \<Rightarrow> string \<Rightarrow> string \<Rightarrow> string \<times> error option"
  EvalSymlinks :: "history \<Rightarrow> string \<Rightarrow> string \<times> error option"
  ValidateDataCacheConfig :: "string \<Rightarrow> string \<Rightarrow> error option"
  setupCaching :: "history \<Rightarrow> string \<Rightarrow> NodeStageVolumeRequest \<Rightarrow> string \<Rightarrow> string \<times> go_error option"
  cleanupCache :: "history \<Rightarrow> string \<Rightarrow> string \<Rightarrow> error option"
  IsLikelyNotMountPoint :: "history \<Rightarrow> string \<Rightarrow> bool \<times> error option"
  prepareStagePath :: "history \<Rightarrow> string \<Rightarrow> error option"
  preparePublishPath :: "history \<Rightarrow> string \<Rightarrow> error option"
  cleanupStagePath :: "history \<Rightarrow> string \<Rightarrow> error option"
  cleanupPublishPath :: "history \<Rightarrow> string \<Rightarrow> error option"
  formatAndMount :: "history \<Rightarrow> string \<Rightarrow> string \<Rightarrow> string \<Rightarrow> string list \<Rightarrow> error option"
  Mount :: "history \<Rightarrow> string \<Rightarrow> string \<Rightarrow> string \<Rightarrow> string list \<Rightarrow> error option"
  Unmount :: "history \<Rightarrow> string \<Rightarrow> error option"
  ResizeFs :: "history \<Rightarrow> string \<Rightarrow> string \<Rightarrow> error option"
  DeviceUtilsResize :: "history \<Rightarrow> string \<Rightarrow> string \<Rightarrow> error option"
  IsBlockDevice :: "history \<Rightarrow> string \<Rightarrow> bool \<times> error option"
  setReadAheadKB :: "history \<Rightarrow> string \<Rightarrow> int \<Rightarrow> error option"
  getBlockSizeBytes :: "history \<Rightarrow> string \<Rightarrow> int \<times> error option"
  IsDeviceFilesystemInUse :: "history \<Rightarrow> string \<Rightarrow> string \<Rightarrow> bool \<times> error option"
  blkidOutput :: "history \<Rightarrow> string \<Rightarrow> string \<times> error option"
  osOpenFile :: "history \<Rightarrow> string \<Rightarrow> error option"
  fileWrite :: "history \<Rightarrow> string \<Rightarrow> string \<Rightarrow> error option"
  fileClose :: "history \<Rightarrow> string \<Rightarrow> error option"
  osRemove :: "history \<Rightarrow> string \<Rightarrow> error option"
  sysfsDataFirst :: bool

type_synonym 'a result = "(codes + 'a) \<times> node_state"

subsection \<open>The attach-limit resolver\<close>

definition smallMachineTypes :: "string list" where
  "smallMachineTypes = [''f1-micro'', ''g1-small'', ''e2-micro'', ''e2-small'', ''e2-medium'']"

definition gen4MachineTypesPrefix :: "string list" where
  "gen4MachineTypesPrefix = [''c4a-'', ''c4-'', ''n4-'', ''c4d-'']"

definition GetAttachLimitsOverrideFromNodeLabel :: "GCENodeServer \<Rightarrow> string \<Rightarrow> int \<times> error option" where
  "GetAttachLimitsOverrideFromNodeLabel ns nodeName =
     (case InClusterConfig ns of
        Some err \<Rightarrow> (0, Some err)
      | None \<Rightarrow>
     (case NewForConfig ns of
        Some err \<Rightarrow> (0, Some err)
      | None \<Rightarrow>
     (case getNodeWithRetry ns nodeName of
        (labels, Some err) \<Rightarrow> (0, Some err)
      | (labels, None) \<Rightarrow>
          (case labels (AttachLimitOverrideLabelKey ns) of
             Some val \<Rightarrow>
               (case ParseInt val of
                  None \<Rightarrow> (0, Some ''error getting attach limit override from node label'')
                | Some attachLimitOverrideForNode \<Rightarrow> (attachLimitOverrideForNode, None))
           | None \<Rightarrow> (0, None)))))"

text \<open>
  The loop over the gen4 prefixes: the first prefix the machine type starts with decides,
  \<open>None\<close> when the loop ends without a return.
\<close>

fun gen4Loop :: "GCENodeServer \<Rightarrow> string \<Rightarrow> string list \<Rightarrow> (int \<times> error option) option" where
  "gen4Loop ns machineType [] = None"
| "gen4Loop ns machineType (gen4Prefix # rest) =
     (if HasPrefix machineType gen4Prefix then
        (let machineTypeSlice = Split machineType CHR ''-'' in
         if length machineTypeSlice > 2 then
           (case ParseInt (machineTypeSlice ! 2) of
              None \<Rightarrow> Some (volumeLimitBig, Some ''invalid cpuString for machine type'')
            | Some cpus \<Rightarrow>
                Some (GetHyperdiskAttachLimit ns (TrimSuffix gen4Prefix ''-'') cpus, None))
         else Some (volumeLimitBig, Some ''unconventional machine type''))
      else gen4Loop ns machineType rest)"

definition GetVolumeLimits :: "GCENodeServer \<Rightarrow> int \<times> error option" where
  "GetVolumeLimits ns =
     (let machineType = GetMachineType ns in
      if machineType \<in> set smallMachineTypes then (volumeLimitSmall, None)
      else
        (case GetAttachLimitsOverrideFromNodeLabel ns (GetName ns) of
           (attachLimitOverride, err) \<Rightarrow>
             if err = None \<and> attachLimitOverride > 0 \<and> attachLimitOverride < 128
             then (attachLimitOverride, None)
             else
               (case gen4Loop ns machineType gen4MachineTypesPrefix of
                  Some r \<Rightarrow> r
                | None \<Rightarrow>
                    if HasPrefix machineType ''x4-'' then (x4HyperdiskLimit, None)
                    else if HasPrefix machineType ''a4-'' then (a4HyperdiskLimit, None)
                    else (volumeLimitBig, None))))"

definition NodeGetInfo :: "GCENodeServer \<Rightarrow> NodeGetInfoResponse \<times> error option" where
  "NodeGetInfo ns =
     (let top = [(TopologyKeyZone ns, GetZone ns)];
          nodeID = CreateNodeID ns (GetProject ns) (GetZone ns) (GetName ns)
      in (case GetVolumeLimits ns of
            (volumeLimits, err) \<Rightarrow>
              let err1 = (if err \<noteq> None then None else err)
              in (\<lparr>NodeId = nodeID, MaxVolumesPerNode = volumeLimits, AccessibleTopology = top\<rparr>,
                  err1)))"

subsection \<open>NodeExpandVolume\<close>

text \<open>
  The optional capability check of NodeExpandVolume: \<open>Some r\<close> when the call returns
  there, \<open>None\<close> when it goes on to the resize.
\<close>

definition NodeExpandVolume_capability ::
  "GCENodeServer \<Rightarrow> VolumeCapability option \<Rightarrow> (codes + NodeExpandVolumeResponse) option" where
  "NodeExpandVolume_capability ns cap =
     (case cap of
        None \<Rightarrow> None
      | Some volumeCapability \<Rightarrow>
          (case validateVolumeCapability ns volumeCapability of
             Some err \<Rightarrow> Some (Inl InvalidArgument)
           | None \<Rightarrow>
               if AccessType volumeCapability = BlockAccess
               then Some (Inr \<lparr>CapacityBytes = 0\<rparr>)
               else
                 (case getReadOnlyFromCapability ns volumeCapability of
                    (readonly, Some err) \<Rightarrow> Some (Inl Internal)
                  | (readonly, None) \<Rightarrow>
                      if readonly then Some (Inr \<lparr>CapacityBytes = 0\<rparr>) else None)))"

definition NodeExpandVolume_resize ::
  "GCENodeServer \<Rightarrow> int \<Rightarrow> string \<Rightarrow> string \<Rightarrow> node_state \<Rightarrow> NodeExpandVolumeResponse result" where
  "NodeExpandVolume_resize ns reqBytes devicePath volumePath st =
     (let st1 = log (ResizeEv devicePath volumePath) st in
      case ResizeFs ns (trace st) devicePath volumePath of
        Some err \<Rightarrow> (Inl Internal, st1)
      | None \<Rightarrow>
          (case getBlockSizeBytes ns (trace st1) devicePath of
             (diskSizeBytes, err) \<Rightarrow>
               if diskSizeBytes < reqBytes then (Inl Internal, st1)
               else (Inr \<lparr>CapacityBytes = reqBytes\<rparr>, st1)))"

definition NodeExpandVolume ::
  "GCENodeServer \<Rightarrow> NodeExpandVolumeRequest \<Rightarrow> node_state \<Rightarrow> NodeExpandVolumeResponse result" where
  "NodeExpandVolume ns req st =
     (let volumeID = expand_VolumeId req in
      if volumeID = [] then (Inl InvalidArgument, st)
      else
        (case getRequestCapacity ns (expand_CapacityRange req) of
           (reqBytes, Some err) \<Rightarrow> (Inl InvalidArgument, st)
         | (reqBytes, None) \<Rightarrow>
             let volumePath = expand_VolumePath req in
             if volumePath = [] then (Inl InvalidArgument, st)
             else
               (case VolumeIDToKey ns volumeID of
                  Some err \<Rightarrow> (Inl InvalidArgument, st)
                | None \<Rightarrow>
                    (case getDevicePath ns (trace st) volumeID [] of
                       (devicePath, Some err) \<Rightarrow> (Inl Internal, st)
                     | (devicePath, None) \<Rightarrow>
                         (case NodeExpandVolume_capability ns (expand_VolumeCapability req) of
                            Some r \<Rightarrow> (r, st)
                          | None \<Rightarrow>
                              NodeExpandVolume_resize ns reqBytes devicePath volumePath st)))))"

subsection \<open>The volume lock registry and the device-in-use tracker\<close>

text \<open>
  Modelled from the spec: \<open>common.VolumeLocks\<close> is declared outside node.go. The spec's
  lock set is the set of currently held volume IDs; \<open>TryAcquire\<close> is a non-blocking
  membership test and insert, false if the key is already held; \<open>Release\<close> removes the key.
\<close>

definition TryAcquire :: "string set \<Rightarrow> string \<Rightarrow> bool \<times> string set" where
  "TryAcquire locks volumeID =
     (if volumeID \<in> locks then (False, locks) else (True, insert volumeID locks))"

definition Release :: "string set \<Rightarrow> string \<Rightarrow> string set" where
  "Release locks volumeID = locks - {volumeID}"

text \<open>
  The idiom every lifecycle operation has right after its required-field checks:
  \<open>if acquired := TryAcquire(volumeID); !acquired { return Aborted }\<close> followed by
  \<open>defer Release(volumeID)\<close>, which runs when the guarded body returns, on any path.
\<close>

definition withVolumeLock ::
  "string \<Rightarrow> (node_state \<Rightarrow> 'a result) \<Rightarrow> node_state \<Rightarrow> 'a result" where
  "withVolumeLock volumeID body st =
     (case TryAcquire (volumeLocks st) volumeID of
        (False, locks1) \<Rightarrow> (Inl Aborted, st)
      | (True, locks1) \<Rightarrow>
          (case body (st\<lparr>volumeLocks := locks1\<rparr>) of
             (r, st1) \<Rightarrow> (r, st1\<lparr>volumeLocks := Release (volumeLocks st1) volumeID\<rparr>)))"

text \<open>
  Modelled from the spec: the \<open>deviceErrMap\<close> methods are declared outside node.go. The
  spec's tracker keeps one record \<open>firstSeenAt\<close> per key: a record is expired when the
  time elapsed since it has reached the timeout; marking creates a record with the current
  time when there is none and retains an existing one; deleting clears the record.
\<close>

definition deviceErrorExpired :: "GCENodeServer \<Rightarrow> node_state \<Rightarrow> string \<Rightarrow> bool" where
  "deviceErrorExpired ns st volumeID =
     (case deviceInUseErrors st volumeID of
        None \<Rightarrow> False
      | Some firstSeenAt \<Rightarrow> timeNow ns - firstSeenAt \<ge> deviceInUseTimeout ns)"

definition markDeviceError :: "GCENodeServer \<Rightarrow> node_state \<Rightarrow> string \<Rightarrow> node_state" where
  "markDeviceError ns st volumeID =
     (case deviceInUseErrors st volumeID of
        None \<Rightarrow> st\<lparr>deviceInUseErrors := (deviceInUseErrors st)(volumeID \<mapsto> timeNow ns)\<rparr>
      | Some firstSeenAt \<Rightarrow> st)"

definition deleteDevice :: "node_state \<Rightarrow> string \<Rightarrow> node_state" where
  "deleteDevice st volumeID = st\<lparr>deviceInUseErrors := (deviceInUseErrors st)(volumeID := None)\<rparr>"

subsection \<open>NodeUnpublishVolume and NodeUnstageVolume\<close>

definition NodeUnpublishVolume ::
  "GCENodeServer \<Rightarrow> NodeUnpublishVolumeRequest \<Rightarrow> node_state \<Rightarrow> unit result" where
  "NodeUnpublishVolume ns req st =
     (let targetPath = unpublish_TargetPath req; volumeID = unpublish_VolumeId req in
      if volumeID = [] then (Inl InvalidArgument, st)
      else if targetPath = [] then (Inl InvalidArgument, st)
      else
        withVolumeLock volumeID
          (\<lambda>st0.
             let st1 = log (CleanupPublishPathEv targetPath) st0 in
             case cleanupPublishPath ns (trace st0) targetPath of
               Some err \<Rightarrow> (Inl Internal, st1)
             | None \<Rightarrow> (Inr (), st1))
          st)"

text \<open>
  \<open>confirmDeviceUnused\<close> returns nil, an error wrapped as \<open>ignoreableError\<close>, or a plain
  error when the device is still in use.
\<close>

datatype unused_error = ignoreableError error | inUseError error

definition confirmDeviceUnused :: "GCENodeServer \<Rightarrow> node_state \<Rightarrow> string \<Rightarrow> unused_error option" where
  "confirmDeviceUnused ns st volumeID =
     (case getDevicePath ns (trace st) volumeID [] of
        (devicePath, Some err) \<Rightarrow> Some (ignoreableError ''failed to find device path for volume'')
      | (devicePath, None) \<Rightarrow>
          (case EvalSymlinks ns (trace st) devicePath of
             (devFsPath, Some err) \<Rightarrow> Some (ignoreableError ''filepath.EvalSymlinks failed'')
           | (devFsPath, None) \<Rightarrow>
               (case IsDeviceFilesystemInUse ns (trace st) devicePath devFsPath of
                  (inUse, Some err) \<Rightarrow> Some (ignoreableError ''failed to check if device is in use'')
                | (inUse, None) \<Rightarrow>
                    if inUse then Some (inUseError ''device is still in use'') else None)))"

fun isIgnoreable :: "unused_error \<Rightarrow> bool" where
  "isIgnoreable (ignoreableError e) = True"
| "isIgnoreable (inUseError e) = False"

text \<open>
  The block guarded by \<open>enableDeviceInUseCheck\<close>: \<open>Some c\<close> when the call returns the
  status \<open>c\<close> there, \<open>None\<close> when it goes on.
\<close>

definition NodeUnstageVolume_deviceInUse ::
  "GCENodeServer \<Rightarrow> string \<Rightarrow> node_state \<Rightarrow> codes option \<times> node_state" where
  "NodeUnstageVolume_deviceInUse ns volumeID st =
     (if enableDeviceInUseCheck ns then
        (case confirmDeviceUnused ns st volumeID of
           Some err \<Rightarrow>
             if isIgnoreable err then (None, deleteDevice st volumeID)
             else if deviceErrorExpired ns st volumeID then (None, deleteDevice st volumeID)
             else (Some Internal, markDeviceError ns st volumeID)
         | None \<Rightarrow> (None, deleteDevice st volumeID))
      else (None, st))"

definition NodeUnstageVolume_locked ::
  "GCENodeServer \<Rightarrow> string \<Rightarrow> string \<Rightarrow> node_state \<Rightarrow> unit result" where
  "NodeUnstageVolume_locked ns volumeID stagingTargetPath st =
     (let st1 = log (CleanupStagePathEv stagingTargetPath) st in
      case cleanupStagePath ns (trace st) stagingTargetPath of
        Some err \<Rightarrow> (Inl Internal, st1)
      | None \<Rightarrow>
          (case NodeUnstageVolume_deviceInUse ns volumeID st1 of
             (Some c, st2) \<Rightarrow> (Inl c, st2)
           | (None, st2) \<Rightarrow>
               if EnableDataCache ns \<and> DataCacheEnabledNodePool ns then
                 (let nodeId = GetName ns;
                      st3 = log (CleanupCacheEv volumeID nodeId) st2
                  in case cleanupCache ns (trace st2) volumeID nodeId of
                       Some err \<Rightarrow> (Inl DataLoss, st3)
                     | None \<Rightarrow> (Inr (), st3))
               else (Inr (), st2)))"

definition NodeUnstageVolume ::
  "GCENodeServer \<Rightarrow> NodeUnstageVolumeRequest \<Rightarrow> node_state \<Rightarrow> unit result" where
  "NodeUnstageVolume ns req st =
     (let volumeID = unstage_VolumeId req; stagingTargetPath = unstage_StagingTargetPath req in
      if volumeID = [] then (Inl InvalidArgument, st)
      else if stagingTargetPath = [] then (Inl InvalidArgument, st)
      else withVolumeLock volumeID (NodeUnstageVolume_locked ns volumeID stagingTargetPath) st)"

subsection \<open>NodePublishVolume\<close>

definition isVolumePathMounted :: "GCENodeServer \<Rightarrow> node_state \<Rightarrow> string \<Rightarrow> bool" where
  "isVolumePathMounted ns st path =
     (case IsLikelyNotMountPoint ns (trace st) path of
        (notMnt, err) \<Rightarrow> err = None \<and> \<not> notMnt)"

definition makeFile :: "GCENodeServer \<Rightarrow> string \<Rightarrow> node_state \<Rightarrow> error option \<times> node_state" where
  "makeFile ns path st =
     (let st1 = log (OpenFileEv path) st in
      case osOpenFile ns (trace st) path of
        Some err \<Rightarrow> (Some ''failed to open file'', st1)
      | None \<Rightarrow>
          (let st2 = log (CloseFileEv path) st1 in
           case fileClose ns (trace st1) path of
             Some err \<Rightarrow> (Some ''failed to close file'', st2)
           | None \<Rightarrow> (None, st2)))"

definition lookupPartition :: "GCENodeServer \<Rightarrow> (string \<rightharpoonup> string) \<Rightarrow> string" where
  "lookupPartition ns volumeContext =
     (case volumeContext (VolumeAttributePartition ns) of Some part \<Rightarrow> part | None \<Rightarrow> [])"

text \<open>
  The mount and block branches of NodePublishVolume: the source path, the file-system type
  and the options of the bind mount, or the status the call returns there.
\<close>

definition NodePublishVolume_source ::
  "GCENodeServer \<Rightarrow> NodePublishVolumeRequest \<Rightarrow> VolumeCapability \<Rightarrow> string list \<Rightarrow> node_state
   \<Rightarrow> (string \<times> string \<times> string list) result" where
  "NodePublishVolume_source ns req volumeCapability options st =
     (let targetPath = publish_TargetPath req in
      case AccessType volumeCapability of
        MountAccess mntFsType mountFlags \<Rightarrow>
          (let fstype = (if mntFsType \<noteq> [] then mntFsType else ''ext4'');
               options1 = options @ collectMountOptions fstype mountFlags;
               st1 = log (PreparePublishPathEv targetPath) st
           in case preparePublishPath ns (trace st) targetPath of
                Some err \<Rightarrow> (Inl Internal, st1)
              | None \<Rightarrow> (Inr (publish_StagingTargetPath req, fstype, options1), st1))
      | BlockAccess \<Rightarrow>
          (let partition = lookupPartition ns (publish_VolumeContext req) in
           case getDevicePath ns (trace st) (publish_VolumeId req) partition of
             (sourcePath, Some err) \<Rightarrow> (Inl Internal, st)
           | (sourcePath, None) \<Rightarrow>
               (case makeFile ns targetPath st of
                  (Some err, st1) \<Rightarrow>
                    (let st2 = log (RemoveEv targetPath) st1 in
                     case osRemove ns (trace st1) targetPath of
                       Some removeErr \<Rightarrow> (Inl Internal, st2)
                     | None \<Rightarrow> (Inl Internal, st2))
                | (None, st1) \<Rightarrow> (Inr (sourcePath, [], options), st1)))
      | NoAccess \<Rightarrow> (Inl InvalidArgument, st))"

text \<open>The branch taken when the bind mount returns an error: it always ends in a failure.\<close>

definition NodePublishVolume_mountFailed ::
  "GCENodeServer \<Rightarrow> string \<Rightarrow> node_state \<Rightarrow> unit result" where
  "NodePublishVolume_mountFailed ns targetPath st =
     (case IsLikelyNotMountPoint ns (trace st) targetPath of
        (notMnt, Some mntErr) \<Rightarrow> (Inl Internal, st)
      | (notMnt, None) \<Rightarrow>
          (case (if \<not> notMnt then
                   (let st1 = log (UnmountEv targetPath) st in
                    case Unmount ns (trace st) targetPath of
                      Some mntErr \<Rightarrow> (Some Internal, st1)
                    | None \<Rightarrow>
                        (case IsLikelyNotMountPoint ns (trace st1) targetPath of
                           (notMnt2, Some mntErr) \<Rightarrow> (Some Internal, st1)
                         | (notMnt2, None) \<Rightarrow>
                             if \<not> notMnt2 then (Some Internal, st1) else (None, st1)))
                 else (None, st)) of
             (Some c, st2) \<Rightarrow> (Inl c, st2)
           | (None, st2) \<Rightarrow> (Inl Internal, log (RemoveEv targetPath) st2)))"

definition NodePublishVolume_locked ::
  "GCENodeServer \<Rightarrow> NodePublishVolumeRequest \<Rightarrow> VolumeCapability \<Rightarrow> node_state \<Rightarrow> unit result" where
  "NodePublishVolume_locked ns req volumeCapability st =
     (let targetPath = publish_TargetPath req in
      case validateVolumeCapability ns volumeCapability of
        Some err \<Rightarrow> (Inl InvalidArgument, st)
      | None \<Rightarrow>
          if isVolumePathMounted ns st targetPath then (Inr (), st)
          else
            (let options = (if publish_Readonly req then [''bind'', ''ro''] else [''bind'']) in
             case NodePublishVolume_source ns req volumeCapability options st of
               (Inl c, st1) \<Rightarrow> (Inl c, st1)
             | (Inr (sourcePath, fstype, options1), st1) \<Rightarrow>
                 (let st2 = log (MountEv sourcePath targetPath fstype options1) st1 in
                  case Mount ns (trace st1) sourcePath targetPath fstype options1 of
                    Some err \<Rightarrow> NodePublishVolume_mountFailed ns targetPath st2
                  | None \<Rightarrow> (Inr (), st2))))"

definition NodePublishVolume ::
  "GCENodeServer \<Rightarrow> NodePublishVolumeRequest \<Rightarrow> node_state \<Rightarrow> unit result" where
  "NodePublishVolume ns req st =
     (let volumeID = publish_VolumeId req in
      if volumeID = [] then (Inl InvalidArgument, st)
      else if publish_StagingTargetPath req = [] then (Inl InvalidArgument, st)
      else if publish_TargetPath req = [] then (Inl InvalidArgument, st)
      else
        (case publish_VolumeCapability req of
           None \<Rightarrow> (Inl InvalidArgument, st)
         | Some volumeCapability \<Rightarrow>
             withVolumeLock volumeID (NodePublishVolume_locked ns req volumeCapability) st))"

subsection \<open>NodeStageVolume\<close>

definition getDefaultFsType :: "GCENodeServer \<Rightarrow> string" where
  "getDefaultFsType ns = (if GOOS ns = ''windows'' then defaultWindowsFsType else defaultLinuxFsType)"

definition mapGet :: "(string \<rightharpoonup> string) \<Rightarrow> string \<Rightarrow> string" where
  "mapGet m k = (case m k of Some v \<Rightarrow> v | None \<Rightarrow> [])"

definition errorsJoin :: "error option \<Rightarrow> error option \<Rightarrow> error option" where
  "errorsJoin a b =
     (case a of
        None \<Rightarrow> b
      | Some x \<Rightarrow> (case b of None \<Rightarrow> Some x | Some y \<Rightarrow> Some (x @ [CHR 0x0A] @ y)))"

definition writeSysfs :: "GCENodeServer \<Rightarrow> string \<Rightarrow> string \<Rightarrow> node_state \<Rightarrow> error option \<times> node_state" where
  "writeSysfs ns path val st =
     (let st1 = log (OpenFileEv path) st in
      case osOpenFile ns (trace st) path of
        Some err \<Rightarrow> (Some err, st1)
      | None \<Rightarrow>
          (let st2 = log (WriteFileEv path val) st1;
               werr = fileWrite ns (trace st1) path val;
               st3 = log (CloseFileEv path) st2;
               cerr = fileClose ns (trace st2) path
           in (errorsJoin werr cerr, st3)))"

definition updateReadAhead :: "GCENodeServer \<Rightarrow> string \<Rightarrow> int \<Rightarrow> node_state \<Rightarrow> error option \<times> node_state" where
  "updateReadAhead ns devicePath readAheadKB st =
     (case IsBlockDevice ns (trace st) devicePath of
        (isBlock, Some err) \<Rightarrow> (Some ''failed to determine whether the path is a block device'', st)
      | (isBlock, None) \<Rightarrow>
          if \<not> isBlock then (None, st)
          else
            (let st1 = log (SetReadAheadKBEv devicePath readAheadKB) st in
             case setReadAheadKB ns (trace st) devicePath readAheadKB of
               Some err \<Rightarrow> (Some ''failed to set readahead'', st1)
             | None \<Rightarrow> (None, st1)))"

definition TrimRightNewline :: "string \<Rightarrow> string" where
  "TrimRightNewline s = rev (dropWhile (\<lambda>c. c = CHR 0x0A) (rev s))"

text \<open>
  The loop over the \<open>sysfs\<close> map, entries in the order the iteration visits them: the
  first failing write ends the call.
\<close>

fun writeSysfs_loop ::
  "GCENodeServer \<Rightarrow> string \<Rightarrow> (string \<times> string) list \<Rightarrow> node_state \<Rightarrow> codes option \<times> node_state" where
  "writeSysfs_loop ns dir [] st = (None, st)"
| "writeSysfs_loop ns dir ((key, val) # rest) st =
     (case writeSysfs ns (dir @ key) val st of
        (Some err, st1) \<Rightarrow> (Some Internal, st1)
      | (None, st1) \<Rightarrow> writeSysfs_loop ns dir rest st1)"

text \<open>
  Parts 4 to 6 of NodeStageVolume: resize, read-ahead, sysfs values. Each part gives
  \<open>Some c\<close> when the call returns the status \<open>c\<close> there and \<open>None\<close> when it goes on.
\<close>

definition NodeStageVolume_resize ::
  "GCENodeServer \<Rightarrow> string \<Rightarrow> string \<Rightarrow> bool \<Rightarrow> node_state \<Rightarrow> codes option \<times> node_state" where
  "NodeStageVolume_resize ns stagingTargetPath devicePath readonly st =
     (if \<not> readonly then
        (let st1 = log (ResizeEv devicePath stagingTargetPath) st in
         case DeviceUtilsResize ns (trace st) devicePath stagingTargetPath of
           Some err \<Rightarrow> (Some Internal, st1)
         | None \<Rightarrow> (None, st1))
      else (None, st))"

definition NodeStageVolume_readAhead ::
  "GCENodeServer \<Rightarrow> string \<Rightarrow> bool \<Rightarrow> int \<Rightarrow> node_state \<Rightarrow> codes option \<times> node_state" where
  "NodeStageVolume_readAhead ns devicePath shouldUpdateReadAhead readAheadKB st =
     (if shouldUpdateReadAhead then
        (case updateReadAhead ns devicePath readAheadKB st of
           (Some err, st1) \<Rightarrow> (Some Internal, st1)
         | (None, st1) \<Rightarrow> (None, st1))
      else (None, st))"

definition sysfsEntries :: "string \<Rightarrow> string \<Rightarrow> (string \<times> string) list" where
  "sysfsEntries btrfsReclaimData btrfsReclaimMetadata =
     (if btrfsReclaimData \<noteq> []
      then [(''allocation/data/bg_reclaim_threshold'', btrfsReclaimData)] else [])
     @ (if btrfsReclaimMetadata \<noteq> []
        then [(''allocation/metadata/bg_reclaim_threshold'', btrfsReclaimMetadata)] else [])"

definition NodeStageVolume_sysfs ::
  "GCENodeServer \<Rightarrow> string \<Rightarrow> bool \<Rightarrow> string \<Rightarrow> string \<Rightarrow> node_state \<Rightarrow> codes option \<times> node_state" where
  "NodeStageVolume_sysfs ns stagingTargetPath readonly btrfsReclaimData btrfsReclaimMetadata st =
     (if \<not> readonly then
        (let sysfs = sysfsEntries btrfsReclaimData btrfsReclaimMetadata in
         if length sysfs > 0 then
           (let st1 = log (BlkidEv stagingTargetPath) st in
            case blkidOutput ns (trace st) stagingTargetPath of
              (uuid, Some err) \<Rightarrow> (Some Internal, st1)
            | (uuid, None) \<Rightarrow>
                writeSysfs_loop ns (SysfsPath ns @ ''/fs/btrfs/'' @ TrimRightNewline uuid @ ''/'')
                  (if sysfsDataFirst ns then sysfs else rev sysfs) st1)
         else (None, st))
      else (None, st))"

definition NodeStageVolume_tune ::
  "GCENodeServer \<Rightarrow> string \<Rightarrow> string \<Rightarrow> bool \<Rightarrow> bool \<Rightarrow> int \<Rightarrow> string \<Rightarrow> string \<Rightarrow> node_state
   \<Rightarrow> unit result" where
  "NodeStageVolume_tune ns stagingTargetPath devicePath readonly shouldUpdateReadAhead readAheadKB
       btrfsReclaimData btrfsReclaimMetadata st =
     (case NodeStageVolume_resize ns stagingTargetPath devicePath readonly st of
        (Some c, st1) \<Rightarrow> (Inl c, st1)
      | (None, st1) \<Rightarrow>
          (case NodeStageVolume_readAhead ns devicePath shouldUpdateReadAhead readAheadKB st1 of
             (Some c, st2) \<Rightarrow> (Inl c, st2)
           | (None, st2) \<Rightarrow>
               (case NodeStageVolume_sysfs ns stagingTargetPath readonly btrfsReclaimData
                       btrfsReclaimMetadata st2 of
                  (Some c, st3) \<Rightarrow> (Inl c, st3)
                | (None, st3) \<Rightarrow> (Inr (), st3))))"

text \<open>
  From the read-only check to the end: format and mount, with the one retry for a
  read-only ext3 or ext4 volume, then parts 4 to 6.
\<close>

definition NodeStageVolume_formatAndMount ::
  "GCENodeServer \<Rightarrow> string \<Rightarrow> VolumeCapability \<Rightarrow> string \<Rightarrow> string \<Rightarrow> string list \<Rightarrow> bool \<Rightarrow> int
   \<Rightarrow> string \<Rightarrow> string \<Rightarrow> node_state \<Rightarrow> unit result" where
  "NodeStageVolume_formatAndMount ns stagingTargetPath volumeCapability devicePath fstype options
       shouldUpdateReadAhead readAheadKB btrfsReclaimData btrfsReclaimMetadata st =
     (let readonly = fst (getReadOnlyFromCapability ns volumeCapability);
          options1 = (if readonly then options @ [''ro''] else options);
          st1 = log (FormatAndMountEv devicePath stagingTargetPath fstype options1) st
      in case formatAndMount ns (trace st) devicePath stagingTargetPath fstype options1 of
           Some err \<Rightarrow>
             if readonly \<and> (fstype = defaultLinuxFsType \<or> fstype = fsTypeExt3) then
               (let options2 = options1 @ [''noload''];
                    st2 = log (FormatAndMountEv devicePath stagingTargetPath fstype options2) st1
                in case formatAndMount ns (trace st1) devicePath stagingTargetPath fstype options2 of
                     None \<Rightarrow> (Inr (), st2)
                   | Some err2 \<Rightarrow> (Inl Internal, st2))
             else (Inl Internal, st1)
         | None \<Rightarrow>
             NodeStageVolume_tune ns stagingTargetPath devicePath readonly shouldUpdateReadAhead
               readAheadKB btrfsReclaimData btrfsReclaimMetadata st1)"

text \<open>Parts 2 and 3 up to the mount options: the mount-point probe, the staging directory,
  the file-system type, the options and the tunables taken from the mount flags.\<close>

definition NodeStageVolume_mount ::
  "GCENodeServer \<Rightarrow> string \<Rightarrow> VolumeCapability \<Rightarrow> string \<Rightarrow> node_state \<Rightarrow> unit result" where
  "NodeStageVolume_mount ns stagingTargetPath volumeCapability devicePath st =
     (if isVolumePathMounted ns st stagingTargetPath then (Inr (), st)
      else
        (let st1 = log (PrepareStagePathEv stagingTargetPath) st in
         case prepareStagePath ns (trace st) stagingTargetPath of
           Some err \<Rightarrow> (Inl Internal, st1)
         | None \<Rightarrow>
             (case AccessType volumeCapability of
                MountAccess mntFsType mountFlags \<Rightarrow>
                  (let fstype = (if mntFsType \<noteq> [] then mntFsType else getDefaultFsType ns);
                       options = collectMountOptions fstype mountFlags
                   in case extractReadAheadKBMountFlag mountFlags of
                        (readAheadKB, shouldUpdateReadAhead, Some err) \<Rightarrow> (Inl InvalidArgument, st1)
                      | (readAheadKB, shouldUpdateReadAhead, None) \<Rightarrow>
                          (case (if mntFsType = fsTypeBtrfs then extractBtrfsReclaimFlags mountFlags
                                 else ([], [])) of
                             (btrfsReclaimData, btrfsReclaimMetadata) \<Rightarrow>
                               NodeStageVolume_formatAndMount ns stagingTargetPath volumeCapability
                                 devicePath fstype options shouldUpdateReadAhead readAheadKB
                                 btrfsReclaimData btrfsReclaimMetadata st1))
              | BlockAccess \<Rightarrow> (Inr (), st1)
              | NoAccess \<Rightarrow>
                  NodeStageVolume_formatAndMount ns stagingTargetPath volumeCapability devicePath
                    (getDefaultFsType ns) [] False 0 [] [] st1)))"

text \<open>
  The data-cache block: the device path the call goes on with (the cache-backed one after
  a set-up), or the status the call returns there.
\<close>

definition NodeStageVolume_dataCache ::
  "GCENodeServer \<Rightarrow> NodeStageVolumeRequest \<Rightarrow> string \<Rightarrow> node_state \<Rightarrow> string result" where
  "NodeStageVolume_dataCache ns req devicePath st =
     (let nodeId = GetName ns;
          cacheSize = mapGet (stage_PublishContext req) (ContextDataCacheSize ns);
          cacheMode = mapGet (stage_PublishContext req) (ContextDataCacheMode ns)
      in if EnableDataCache ns \<and> (cacheSize \<noteq> [] \<or> cacheMode \<noteq> []) then
           (if length nodeId = 0 then (Inl InvalidArgument, st)
            else
              (let devFsPath = fst (EvalSymlinks ns (trace st) devicePath) in
               case ValidateDataCacheConfig ns cacheMode cacheSize of
                 Some configError \<Rightarrow>
                   if DataCacheEnabledNodePool ns then (Inl DataLoss, st)
                   else (Inl InvalidArgument, st)
               | None \<Rightarrow>
                   (let st1 = log (SetupCachingEv devFsPath nodeId) st in
                    case setupCaching ns (trace st) devFsPath req nodeId of
                      (devicePath1, Some err) \<Rightarrow>
                        if statusCode err = InvalidArgument then (Inl InvalidArgument, st1)
                        else (Inl DataLoss, st1)
                    | (devicePath1, None) \<Rightarrow> (Inr devicePath1, st1))))
         else (Inr devicePath, st))"

definition NodeStageVolume_locked ::
  "GCENodeServer \<Rightarrow> NodeStageVolumeRequest \<Rightarrow> VolumeCapability \<Rightarrow> node_state \<Rightarrow> unit result" where
  "NodeStageVolume_locked ns req volumeCapability st =
     (let volumeID = stage_VolumeId req in
      case validateVolumeCapability ns volumeCapability of
        Some err \<Rightarrow> (Inl InvalidArgument, st)
      | None \<Rightarrow>
          (case VolumeIDToKey ns volumeID of
             Some err \<Rightarrow> (Inl InvalidArgument, st)
           | None \<Rightarrow>
               (let partition = lookupPartition ns (stage_VolumeContext req) in
                case getDevicePath ns (trace st) volumeID partition of
                  (devicePath, Some err) \<Rightarrow> (Inl Internal, st)
                | (devicePath, None) \<Rightarrow>
                    (case NodeStageVolume_dataCache ns req devicePath st of
                       (Inl c, st1) \<Rightarrow> (Inl c, st1)
                     | (Inr devicePath1, st1) \<Rightarrow>
                         NodeStageVolume_mount ns (stage_StagingTargetPath req) volumeCapability
                           devicePath1 st1))))"

definition NodeStageVolume ::
  "GCENodeServer \<Rightarrow> NodeStageVolumeRequest \<Rightarrow> node_state \<Rightarrow> unit result" where
  "NodeStageVolume ns req st =
     (let volumeID = stage_VolumeId req in
      if volumeID = [] then (Inl InvalidArgument, st)
      else if stage_StagingTargetPath req = [] then (Inl InvalidArgument, st)
      else
        (case stage_VolumeCapability req of
           None \<Rightarrow> (Inl InvalidArgument, st)
         | Some volumeCapability \<Rightarrow>
             withVolumeLock volumeID (NodeStageVolume_locked ns req volumeCapability) st))"

subsection \<open>Histories that only grow\<close>

text \<open>
  \<open>extends Q st st'\<close>: the state \<open>st'\<close> is \<open>st\<close> with further events appended to the
  history, each of which satisfies \<open>Q\<close>, and nothing else changed.
\<close>

definition extends :: "(event \<Rightarrow> bool) \<Rightarrow> node_state \<Rightarrow> node_state \<Rightarrow> bool" where
  "extends Q st st' = (\<exists>evs. st' = st\<lparr>trace := trace st @ evs\<rparr> \<and> list_all Q evs)"


text \<open>
  What NodeStageVolume may do for a mount capability with file-system type \<open>mntFsType\<close>
  and raw flags \<open>mountFlags\<close>: the bound on every event the call adds to the history.
\<close>

definition stageEventOk :: "string \<Rightarrow> string list \<Rightarrow> event \<Rightarrow> bool" where
  "stageEventOk mntFsType mountFlags ev =
     (case ev of
        FormatAndMountEv d s f opts \<Rightarrow> list_all (\<lambda>opt. \<not> isTunableFlag opt) opts
      | SetReadAheadKBEv d kb \<Rightarrow> extractReadAheadKBMountFlag mountFlags = (kb, True, None)
      | BlkidEv p \<Rightarrow> mntFsType = fsTypeBtrfs
      | OpenFileEv p \<Rightarrow> mntFsType = fsTypeBtrfs
      | CloseFileEv p \<Rightarrow> mntFsType = fsTypeBtrfs
      | WriteFileEv p v \<Rightarrow>
          mntFsType = fsTypeBtrfs
          \<and> (v = fst (extractBtrfsReclaimFlags mountFlags)
               \<or> v = snd (extractBtrfsReclaimFlags mountFlags))
      | _ \<Rightarrow> True)"


subsection \<open>A server and requests to evaluate the operations on\<close>

definition exampleServer :: GCENodeServer where
  "exampleServer =
     \<lparr>EnableDataCache = False, DataCacheEnabledNodePool = False, SysfsPath = ''/sys'',
      enableDeviceInUseCheck = True, deviceInUseTimeout = 30, GOOS = ''linux'',
      GetName = ''node-1'', GetZone = ''us-central1-a'', GetProject = ''proj'',
      GetMachineType = ''n2-standard-8'', timeNow = 100,
      ContextDataCacheSize = ''data-cache-size'', ContextDataCacheMode = ''data-cache-mode'',
      VolumeAttributePartition = ''partition'', TopologyKeyZone = ''topology.gke.io/zone'',
      AttachLimitOverrideLabelKey = ''node-restriction.kubernetes.io/gke-volume-attach-limit-override'',
      CreateNodeID = (\<lambda>project zone name. project @ ''/'' @ zone @ ''/'' @ name),
      GetHyperdiskAttachLimit = (\<lambda>prefix cpus. if cpus < 8 then 15 else 31),
      InClusterConfig = None, NewForConfig = None,
      getNodeWithRetry = (\<lambda>nodeName. (Map.empty, None)),
      validateVolumeCapability = (\<lambda>vc. None),
      getReadOnlyFromCapability = (\<lambda>vc. (AccessMode vc = 2 \<or> AccessMode vc = 3, None)),
      getRequestCapacity = (\<lambda>r. case r of None \<Rightarrow> (0, Some ''no range'') | Some (req, lim) \<Rightarrow> (req, None)),
      VolumeIDToKey = (\<lambda>v. None),
      getDevicePath = (\<lambda>h v p. (''/dev/sdb'', None)),
      EvalSymlinks = (\<lambda>h p. (p, None)),
      ValidateDataCacheConfig = (\<lambda>m s. None),
      setupCaching = (\<lambda>h p r n. (''/dev/mapper/cache'', None)),
      cleanupCache = (\<lambda>h v n. None),
      IsLikelyNotMountPoint = (\<lambda>h p. (True, None)),
      prepareStagePath = (\<lambda>h p. None),
      preparePublishPath = (\<lambda>h p. None),
      cleanupStagePath = (\<lambda>h p. None),
      cleanupPublishPath = (\<lambda>h p. None),
      formatAndMount = (\<lambda>h d s f opts. None),
      Mount = (\<lambda>h s t f opts. None),
      Unmount = (\<lambda>h p. None),
      ResizeFs = (\<lambda>h d p. None),
      DeviceUtilsResize = (\<lambda>h d p. None),
      IsBlockDevice = (\<lambda>h p. (True, None)),
      setReadAheadKB = (\<lambda>h d k. None),
      getBlockSizeBytes = (\<lambda>h d. (11811160064, None)),
      IsDeviceFilesystemInUse = (\<lambda>h d f. (False, None)),
      blkidOutput = (\<lambda>h p. (''uuid-1'' @ [CHR 0x0A], None)),
      osOpenFile = (\<lambda>h p. None),
      fileWrite = (\<lambda>h p v. None),
      fileClose = (\<lambda>h p. None),
      osRemove = (\<lambda>h p. None),
      sysfsDataFirst = True\<rparr>"

definition emptyState :: node_state where
  "emptyState = \<lparr>volumeLocks = {}, deviceInUseErrors = Map.empty, trace = []\<rparr>"

definition expandReq :: NodeExpandVolumeRequest where
  "expandReq = \<lparr>expand_VolumeId = ''projects/p/zones/z/disks/d'', expand_VolumePath = ''/mnt/vol'',
     expand_CapacityRange = Some (10737418240, 0), expand_VolumeCapability = None\<rparr>"


definition withMachineType :: "string \<Rightarrow> GCENodeServer" where
  "withMachineType machineType = exampleServer\<lparr>GetMachineType := machineType\<rparr>"

definition withOverrideLabel :: "string \<Rightarrow> string \<Rightarrow> GCENodeServer" where
  "withOverrideLabel machineType val =
     exampleServer\<lparr>GetMachineType := machineType,
       getNodeWithRetry := (\<lambda>nodeName. ([AttachLimitOverrideLabelKey exampleServer \<mapsto> val], None))\<rparr>"


definition stageRequest :: "string \<Rightarrow> string list \<Rightarrow> nat \<Rightarrow> NodeStageVolumeRequest" where
  "stageRequest fsType mountFlags mode =
     \<lparr>stage_VolumeId = ''projects/p/zones/z/disks/d'', stage_StagingTargetPath = ''/staging'',
      stage_VolumeCapability = Some \<lparr>AccessType = MountAccess fsType mountFlags, AccessMode = mode\<rparr>,
      stage_PublishContext = Map.empty, stage_VolumeContext = Map.empty\<rparr>"


definition mountFailsUnless :: "string \<Rightarrow> GCENodeServer" where
  "mountFailsUnless opt =
     exampleServer\<lparr>formatAndMount :=
       (\<lambda>h d s f opts. if opt \<in> set opts then None else Some ''mount failed'')\<rparr>"


definition cacheServer :: "bool \<Rightarrow> string \<Rightarrow> GCENodeServer" where
  "cacheServer pool nodeName =
     exampleServer\<lparr>EnableDataCache := True, DataCacheEnabledNodePool := pool, GetName := nodeName,
       ValidateDataCacheConfig := (\<lambda>m s. if m = ''writeback'' \<or> m = ''writethrough'' then None
                                          else Some ''invalid data cache mode'')\<rparr>"

definition cacheRequest :: "string \<Rightarrow> NodeStageVolumeRequest" where
  "cacheRequest cacheMode =
     (stageRequest ''ext4'' [] 1)\<lparr>stage_PublishContext :=
        [''data-cache-mode'' \<mapsto> cacheMode, ''data-cache-size'' \<mapsto> ''50'']\<rparr>"


definition lockedState :: node_state where
  "lockedState = emptyState\<lparr>volumeLocks := {''projects/p/zones/z/disks/d''}\<rparr>"

definition unstageRequest :: "string \<Rightarrow> NodeUnstageVolumeRequest" where
  "unstageRequest stagingTargetPath =
     \<lparr>unstage_VolumeId = ''projects/p/zones/z/disks/d'', unstage_StagingTargetPath = stagingTargetPath\<rparr>"

definition unpublishRequest :: NodeUnpublishVolumeRequest where
  "unpublishRequest =
     \<lparr>unpublish_VolumeId = ''projects/p/zones/z/disks/d'', unpublish_TargetPath = ''/target''\<rparr>"

definition publishRequest :: NodePublishVolumeRequest where
  "publishRequest =
     \<lparr>publish_VolumeId = ''projects/p/zones/z/disks/d'', publish_StagingTargetPath = ''/staging'',
      publish_TargetPath = ''/target'',
      publish_VolumeCapability = Some \<lparr>AccessType = MountAccess ''ext4'' [], AccessMode = 1\<rparr>,
      publish_Readonly = False, publish_VolumeContext = Map.empty\<rparr>"


definition inUseServer :: "int \<Rightarrow> GCENodeServer" where
  "inUseServer now = exampleServer\<lparr>IsDeviceFilesystemInUse := (\<lambda>h d f. (True, None)), timeNow := now\<rparr>"

definition recordedState :: "int \<Rightarrow> node_state" where
  "recordedState firstSeenAt =
     emptyState\<lparr>deviceInUseErrors := [''projects/p/zones/z/disks/d'' \<mapsto> firstSeenAt]\<rparr>"

definition devicePathFails :: GCENodeServer where
  "devicePathFails = exampleServer\<lparr>getDevicePath := (\<lambda>h v p. ([], Some ''device not found''))\<rparr>"

definition cacheTeardownFails :: GCENodeServer where
  "cacheTeardownFails =
     exampleServer\<lparr>EnableDataCache := True, DataCacheEnabledNodePool := True,
       getDevicePath := (\<lambda>h v p. ([], Some ''device not found'')),
       cleanupCache := (\<lambda>h v n. Some ''vgchange failed'')\<rparr>"


section \<open>Auxiliary facts\<close>

subsection \<open>Growing histories\<close>

lemma extends_refl: "extends Q st st"
  by (auto simp: extends_def intro: exI [of _ "[]"])

lemma extends_log: "extends Q st st1 \<Longrightarrow> Q ev \<Longrightarrow> extends Q st (log ev st1)"
  unfolding extends_def log_def
proof -
  assume "\<exists>evs. st1 = st\<lparr>trace := trace st @ evs\<rparr> \<and> list_all Q evs" and q: "Q ev"
  then obtain evs where e: "st1 = st\<lparr>trace := trace st @ evs\<rparr>" and l: "list_all Q evs" by blast
  have "st1\<lparr>trace := trace st1 @ [ev]\<rparr> = st\<lparr>trace := trace st @ (evs @ [ev])\<rparr>"
    by (simp add: e)
  moreover have "list_all Q (evs @ [ev])" using l q by simp
  ultimately show "\<exists>evs. st1\<lparr>trace := trace st1 @ [ev]\<rparr> = st\<lparr>trace := trace st @ evs\<rparr> \<and> list_all Q evs"
    by blast
qed

lemma extends_trans: "extends Q st st1 \<Longrightarrow> extends Q st1 st2 \<Longrightarrow> extends Q st st2"
  unfolding extends_def
proof -
  assume "\<exists>evs. st1 = st\<lparr>trace := trace st @ evs\<rparr> \<and> list_all Q evs"
    and "\<exists>evs. st2 = st1\<lparr>trace := trace st1 @ evs\<rparr> \<and> list_all Q evs"
  then obtain e1 e2 where a: "st1 = st\<lparr>trace := trace st @ e1\<rparr>" "list_all Q e1"
    and b: "st2 = st1\<lparr>trace := trace st1 @ e2\<rparr>" "list_all Q e2" by blast
  have "st2 = st\<lparr>trace := trace st @ (e1 @ e2)\<rparr>" using a b by simp
  moreover have "list_all Q (e1 @ e2)" using a b by simp
  ultimately show "\<exists>evs. st2 = st\<lparr>trace := trace st @ evs\<rparr> \<and> list_all Q evs" by blast
qed

lemma extends_locks: "extends Q st st' \<Longrightarrow> volumeLocks st' = volumeLocks st"
  by (auto simp: extends_def)

lemma extends_tracker: "extends Q st st' \<Longrightarrow> deviceInUseErrors st' = deviceInUseErrors st"
  by (auto simp: extends_def)

lemma writeSysfs_extends:
  assumes "\<And>p. Q (OpenFileEv p)" "\<And>p. Q (WriteFileEv p val)" "\<And>p. Q (CloseFileEv p)"
  shows "extends Q st (snd (writeSysfs ns path val st))"
  using assms
  by (auto simp: writeSysfs_def Let_def split: option.splits intro!: extends_log extends_refl)

lemma writeSysfs_loop_extends:
  assumes "\<And>p. Q (OpenFileEv p)" "\<And>p v. v \<in> snd ` set entries \<Longrightarrow> Q (WriteFileEv p v)" "\<And>p. Q (CloseFileEv p)"
  shows "extends Q st (snd (writeSysfs_loop ns dir entries st))"
  using assms
proof (induction entries arbitrary: st)
  case Nil
  then show ?case by (simp add: extends_refl)
next
  case (Cons e entries)
  obtain key val where e: "e = (key, val)" by (cases e)
  have w: "extends Q st (snd (writeSysfs ns (dir @ key) val st))"
    by (rule writeSysfs_extends) (use Cons.prems e in auto)
  show ?case
  proof (cases "writeSysfs ns (dir @ key) val st")
    case (Pair r st1)
    with w have x: "extends Q st st1" by simp
    have "extends Q st1 (snd (writeSysfs_loop ns dir entries st1))"
      by (rule Cons.IH) (use Cons.prems in auto)
    with x have "extends Q st (snd (writeSysfs_loop ns dir entries st1))"
      by (rule extends_trans)
    with x Pair e show ?thesis by (cases r) auto
  qed
qed

lemma updateReadAhead_extends:
  assumes "Q (SetReadAheadKBEv devicePath readAheadKB)"
  shows "extends Q st (snd (updateReadAhead ns devicePath readAheadKB st))"
  using assms
  by (auto simp: updateReadAhead_def Let_def split: option.splits prod.splits
        intro!: extends_log extends_refl)

lemma NodeStageVolume_resize_extends:
  assumes "\<And>d s. Q (ResizeEv d s)"
  shows "extends Q st (snd (NodeStageVolume_resize ns stagingTargetPath devicePath readonly st))"
  using assms
  by (auto simp: NodeStageVolume_resize_def Let_def split: option.splits
        intro!: extends_log extends_refl)

lemma NodeStageVolume_readAhead_extends:
  assumes "shouldUpdateReadAhead \<Longrightarrow> Q (SetReadAheadKBEv devicePath readAheadKB)"
  shows "extends Q st (snd (NodeStageVolume_readAhead ns devicePath shouldUpdateReadAhead readAheadKB st))"
proof (cases shouldUpdateReadAhead)
  case True
  with assms have "extends Q st (snd (updateReadAhead ns devicePath readAheadKB st))"
    by (intro updateReadAhead_extends) simp
  with True show ?thesis
    by (auto simp: NodeStageVolume_readAhead_def split: option.splits prod.splits)
next
  case False
  then show ?thesis by (simp add: NodeStageVolume_readAhead_def extends_refl)
qed

lemma sysfsEntries_values:
  "snd ` set (sysfsEntries d m) \<subseteq> {d, m}" "sysfsEntries d m \<noteq> [] \<Longrightarrow> d \<noteq> [] \<or> m \<noteq> []"
  by (auto simp: sysfsEntries_def split: if_splits)

lemma NodeStageVolume_sysfs_extends:
  assumes f: "\<And>p. btrfsReclaimData \<noteq> [] \<or> btrfsReclaimMetadata \<noteq> [] \<Longrightarrow>
               Q (BlkidEv p) \<and> Q (OpenFileEv p) \<and> Q (CloseFileEv p)
               \<and> Q (WriteFileEv p btrfsReclaimData) \<and> Q (WriteFileEv p btrfsReclaimMetadata)"
  shows "extends Q st (snd (NodeStageVolume_sysfs ns stagingTargetPath readonly btrfsReclaimData
            btrfsReclaimMetadata st))"
proof (cases "\<not> readonly \<and> sysfsEntries btrfsReclaimData btrfsReclaimMetadata \<noteq> []")
  case True
  then have ne: "btrfsReclaimData \<noteq> [] \<or> btrfsReclaimMetadata \<noteq> []"
    using sysfsEntries_values(2) by blast
  define st1 where "st1 = log (BlkidEv stagingTargetPath) st"
  have b: "extends Q st st1"
    unfolding st1_def using f [OF ne] by (auto intro!: extends_log extends_refl)
  have w: "extends Q st1 (snd (writeSysfs_loop ns dir ents st1))"
    if "set ents \<subseteq> set (sysfsEntries btrfsReclaimData btrfsReclaimMetadata)" for dir ents
  proof (rule writeSysfs_loop_extends)
    fix p v assume "v \<in> snd ` set ents"
    with that sysfsEntries_values(1) [of btrfsReclaimData btrfsReclaimMetadata]
    have "v = btrfsReclaimData \<or> v = btrfsReclaimMetadata" by auto
    with f [OF ne] show "Q (WriteFileEv p v)" by auto
  qed (use f [OF ne] in auto)
  show ?thesis
  proof (cases "blkidOutput ns (trace st) stagingTargetPath")
    case (Pair uuid err)
    show ?thesis
    proof (cases err)
      case None
      have "extends Q st (snd (writeSysfs_loop ns dir ents st1))"
        if "set ents \<subseteq> set (sysfsEntries btrfsReclaimData btrfsReclaimMetadata)" for dir ents
        using b w [OF that] by (rule extends_trans)
      with True Pair None show ?thesis
        by (simp add: NodeStageVolume_sysfs_def Let_def st1_def)
    next
      case (Some e)
      with True Pair b show ?thesis
        by (simp add: NodeStageVolume_sysfs_def Let_def st1_def)
    qed
  qed
next
  case False
  then show ?thesis
    by (auto simp: NodeStageVolume_sysfs_def Let_def extends_refl)
qed

lemma NodeStageVolume_tune_extends:
  assumes r: "\<And>d s. Q (ResizeEv d s)"
    and a: "shouldUpdateReadAhead \<Longrightarrow> Q (SetReadAheadKBEv devicePath readAheadKB)"
    and f: "\<And>p. btrfsReclaimData \<noteq> [] \<or> btrfsReclaimMetadata \<noteq> [] \<Longrightarrow>
               Q (BlkidEv p) \<and> Q (OpenFileEv p) \<and> Q (CloseFileEv p)
               \<and> Q (WriteFileEv p btrfsReclaimData) \<and> Q (WriteFileEv p btrfsReclaimMetadata)"
  shows "extends Q st (snd (NodeStageVolume_tune ns stagingTargetPath devicePath readonly
            shouldUpdateReadAhead readAheadKB btrfsReclaimData btrfsReclaimMetadata st))"
proof -
  obtain r1 st1 where s1: "NodeStageVolume_resize ns stagingTargetPath devicePath readonly st = (r1, st1)"
    by (cases "NodeStageVolume_resize ns stagingTargetPath devicePath readonly st")
  obtain r2 st2 where s2: "NodeStageVolume_readAhead ns devicePath shouldUpdateReadAhead readAheadKB st1 = (r2, st2)"
    by (cases "NodeStageVolume_readAhead ns devicePath shouldUpdateReadAhead readAheadKB st1")
  obtain r3 st3 where s3: "NodeStageVolume_sysfs ns stagingTargetPath readonly btrfsReclaimData
                       btrfsReclaimMetadata st2 = (r3, st3)"
    by (cases "NodeStageVolume_sysfs ns stagingTargetPath readonly btrfsReclaimData
                       btrfsReclaimMetadata st2")
  have e1: "extends Q st st1"
    using NodeStageVolume_resize_extends [of Q st ns stagingTargetPath devicePath readonly] r s1 by simp
  have e2: "extends Q st1 st2"
    using NodeStageVolume_readAhead_extends [of shouldUpdateReadAhead Q devicePath readAheadKB st1 ns] a s2
    by simp
  have e3: "extends Q st2 st3"
    using NodeStageVolume_sysfs_extends [of btrfsReclaimData btrfsReclaimMetadata Q st2 ns stagingTargetPath readonly] f s3
    by simp
  have e12: "extends Q st st2" using e1 e2 by (rule extends_trans)
  have e13: "extends Q st st3" using e12 e3 by (rule extends_trans)
  show ?thesis
    using s1 s2 s3 e1 e12 e13
    by (cases r1; cases r2; cases r3) (simp_all add: NodeStageVolume_tune_def)
qed

lemma NodeStageVolume_formatAndMount_extends:
  assumes r: "\<And>d s. Q (ResizeEv d s)"
    and a: "shouldUpdateReadAhead \<Longrightarrow> Q (SetReadAheadKBEv devicePath readAheadKB)"
    and f: "\<And>p. btrfsReclaimData \<noteq> [] \<or> btrfsReclaimMetadata \<noteq> [] \<Longrightarrow>
               Q (BlkidEv p) \<and> Q (OpenFileEv p) \<and> Q (CloseFileEv p)
               \<and> Q (WriteFileEv p btrfsReclaimData) \<and> Q (WriteFileEv p btrfsReclaimMetadata)"
    and m: "\<And>d s fs extra. set extra \<subseteq> {''ro'', ''noload''} \<Longrightarrow>
               Q (FormatAndMountEv d s fs (options @ extra))"
  shows "extends Q st (snd (NodeStageVolume_formatAndMount ns stagingTargetPath volumeCapability
            devicePath fstype options shouldUpdateReadAhead readAheadKB btrfsReclaimData
            btrfsReclaimMetadata st))"
proof -
  let ?readonly = "fst (getReadOnlyFromCapability ns volumeCapability)"
  let ?options1 = "(if ?readonly then options @ [''ro''] else options)"
  let ?st1 = "log (FormatAndMountEv devicePath stagingTargetPath fstype ?options1) st"
  let ?st2 = "log (FormatAndMountEv devicePath stagingTargetPath fstype (?options1 @ [''noload''])) ?st1"
  have q1: "Q (FormatAndMountEv devicePath stagingTargetPath fstype ?options1)"
    using m [of "[''ro'']"] m [of "[]"] by auto
  have q2: "Q (FormatAndMountEv devicePath stagingTargetPath fstype (?options1 @ [''noload'']))"
    using m [of "[''ro'', ''noload'']"] m [of "[''noload'']"] by auto
  have e1: "extends Q st ?st1"
    by (rule extends_log) (rule extends_refl, rule q1)
  have e2: "extends Q st ?st2"
    by (rule extends_log) (rule e1, rule q2)
  have "extends Q ?st1 (snd (NodeStageVolume_tune ns stagingTargetPath devicePath ?readonly
              shouldUpdateReadAhead readAheadKB btrfsReclaimData btrfsReclaimMetadata ?st1))"
    by (rule NodeStageVolume_tune_extends) (use r a f in auto)
  with e1 have e3: "extends Q st (snd (NodeStageVolume_tune ns stagingTargetPath devicePath ?readonly
              shouldUpdateReadAhead readAheadKB btrfsReclaimData btrfsReclaimMetadata ?st1))"
    by (rule extends_trans)
  show ?thesis
  proof (cases "formatAndMount ns (trace st) devicePath stagingTargetPath fstype ?options1")
    case None
    with e3 show ?thesis by (simp add: NodeStageVolume_formatAndMount_def Let_def)
  next
    case (Some err)
    with e1 e2 show ?thesis
      by (cases "fst (getReadOnlyFromCapability ns volumeCapability)")
         (auto simp: NodeStageVolume_formatAndMount_def Let_def split: option.splits)
  qed
qed

lemma isTunableFlag_ro_noload: "\<not> isTunableFlag ''ro''" "\<not> isTunableFlag ''noload''"
  by (simp_all add: isTunableFlag_def readAheadKBMountFlagRegex_def btrfsReclaimDataRegex_def
        btrfsReclaimMetadataRegex_def digits12_def)

lemma collectMountOptions_clean: "list_all (\<lambda>opt. \<not> isTunableFlag opt) (collectMountOptions fstype flags)"
  by (simp add: collectMountOptions_def list_all_iff)

lemma NodeStageVolume_mount_extends_mount:
  assumes acc: "AccessType volumeCapability = MountAccess mntFsType mountFlags"
  shows "extends (stageEventOk mntFsType mountFlags) st
           (snd (NodeStageVolume_mount ns stagingTargetPath volumeCapability devicePath st))"
proof -
  let ?Q = "stageEventOk mntFsType mountFlags"
  let ?st1 = "log (PrepareStagePathEv stagingTargetPath) st"
  let ?fstype = "(if mntFsType \<noteq> [] then mntFsType else getDefaultFsType ns)"
  have e1: "extends ?Q st ?st1"
    by (rule extends_log) (rule extends_refl, simp add: stageEventOk_def)
  have fm: "extends ?Q ?st1 (snd (NodeStageVolume_formatAndMount ns stagingTargetPath volumeCapability
              devicePath ?fstype (collectMountOptions ?fstype mountFlags) should kb rd rm ?st1))"
    if "extractReadAheadKBMountFlag mountFlags = (kb, should, None)"
      and "(if mntFsType = fsTypeBtrfs then extractBtrfsReclaimFlags mountFlags else ([], [])) = (rd, rm)"
    for kb should rd rm
  proof (rule NodeStageVolume_formatAndMount_extends)
    show "?Q (ResizeEv d s)" for d s by (simp add: stageEventOk_def)
    show "should \<Longrightarrow> ?Q (SetReadAheadKBEv devicePath kb)"
      using that(1) by (simp add: stageEventOk_def)
    show "rd \<noteq> [] \<or> rm \<noteq> [] \<Longrightarrow>
            ?Q (BlkidEv p) \<and> ?Q (OpenFileEv p) \<and> ?Q (CloseFileEv p)
            \<and> ?Q (WriteFileEv p rd) \<and> ?Q (WriteFileEv p rm)" for p
      using that(2) by (auto simp: stageEventOk_def split: if_splits)
    show "?Q (FormatAndMountEv d s fs (collectMountOptions ?fstype mountFlags @ extra))"
      if "set extra \<subseteq> {''ro'', ''noload''}" for d s fs extra
    proof -
      have "list_all (\<lambda>opt. \<not> isTunableFlag opt) extra"
        using that isTunableFlag_ro_noload by (auto simp: list_all_iff)
      then show ?thesis
        using collectMountOptions_clean [of ?fstype mountFlags] by (simp add: stageEventOk_def)
    qed
  qed
  show ?thesis
  proof (cases "isVolumePathMounted ns st stagingTargetPath")
    case True
    then show ?thesis by (simp add: NodeStageVolume_mount_def extends_refl)
  next
    case False
    show ?thesis
    proof (cases "prepareStagePath ns (trace st) stagingTargetPath")
      case (Some err)
      with False e1 show ?thesis by (simp add: NodeStageVolume_mount_def Let_def)
    next
      case None
      obtain kb should err where x: "extractReadAheadKBMountFlag mountFlags = (kb, should, err)"
        by (cases "extractReadAheadKBMountFlag mountFlags")
      obtain rd rm where y:
        "(if mntFsType = fsTypeBtrfs then extractBtrfsReclaimFlags mountFlags else ([], [])) = (rd, rm)"
        by (cases "(if mntFsType = fsTypeBtrfs then extractBtrfsReclaimFlags mountFlags else ([], []))")
      show ?thesis
      proof (cases err)
        case (Some e)
        with False None acc x e1 show ?thesis by (simp add: NodeStageVolume_mount_def Let_def)
      next
        case n: None
        have "extends ?Q st (snd (NodeStageVolume_formatAndMount ns stagingTargetPath volumeCapability
              devicePath ?fstype (collectMountOptions ?fstype mountFlags) should kb rd rm ?st1))"
          using e1 fm [OF x [unfolded n] y] by (rule extends_trans)
        with False None acc x n y show ?thesis
          by (simp add: NodeStageVolume_mount_def Let_def)
      qed
    qed
  qed
qed

lemma NodeStageVolume_mount_only_trace:
  "extends (\<lambda>ev. True) st (snd (NodeStageVolume_mount ns stagingTargetPath volumeCapability devicePath st))"
proof -
  let ?st1 = "log (PrepareStagePathEv stagingTargetPath) st"
  have e1: "extends (\<lambda>ev. True) st ?st1"
    by (rule extends_log) (rule extends_refl, simp)
  have fm: "extends (\<lambda>ev. True) st (snd (NodeStageVolume_formatAndMount ns stagingTargetPath volumeCapability
              devicePath fstype options should kb rd rm ?st1))" for fstype options should kb rd rm
    by (rule extends_trans [OF e1]) (rule NodeStageVolume_formatAndMount_extends, simp_all)
  show ?thesis
    using e1 fm
    by (auto simp: NodeStageVolume_mount_def Let_def extends_refl
          split: option.splits access_type.splits prod.splits)
qed

lemma NodeStageVolume_dataCache_extends:
  assumes "\<And>d n. Q (SetupCachingEv d n)"
  shows "extends Q st (snd (NodeStageVolume_dataCache ns req devicePath st))"
proof -
  have "extends Q st (log (SetupCachingEv d n) st)" for d n
    by (rule extends_log) (rule extends_refl, rule assms)
  then show ?thesis
    by (auto simp: NodeStageVolume_dataCache_def Let_def extends_refl split: option.splits prod.splits)
qed

lemma extends_log_True: "extends (\<lambda>ev. True) st st1 \<Longrightarrow> extends (\<lambda>ev. True) st (log ev st1)"
  by (rule extends_log) simp_all

lemma makeFile_only_trace: "extends (\<lambda>ev. True) st (snd (makeFile ns path st))"
  by (auto simp: makeFile_def Let_def split: option.splits intro!: extends_log_True extends_refl)

lemma NodePublishVolume_source_only_trace:
  "extends (\<lambda>ev. True) st (snd (NodePublishVolume_source ns req volumeCapability options st))"
proof (cases "AccessType volumeCapability")
  case (MountAccess f flags)
  then show ?thesis
    by (auto simp: NodePublishVolume_source_def Let_def split: option.splits
          intro!: extends_log_True extends_refl)
next
  case BlockAccess
  have m: "extends (\<lambda>ev. True) st (snd (makeFile ns (publish_TargetPath req) st))"
    by (rule makeFile_only_trace)
  obtain r st1 where x: "makeFile ns (publish_TargetPath req) st = (r, st1)"
    by (cases "makeFile ns (publish_TargetPath req) st")
  with m have "extends (\<lambda>ev. True) st st1" by simp
  then have "extends (\<lambda>ev. True) st (log (RemoveEv (publish_TargetPath req)) st1)"
    by (rule extends_log_True)
  with BlockAccess x \<open>extends (\<lambda>ev. True) st st1\<close> show ?thesis
    by (auto simp: NodePublishVolume_source_def Let_def extends_refl split: option.splits prod.splits)
next
  case NoAccess
  then show ?thesis by (simp add: NodePublishVolume_source_def extends_refl)
qed

lemma NodePublishVolume_mountFailed_only_trace:
  "extends (\<lambda>ev. True) st (snd (NodePublishVolume_mountFailed ns targetPath st))"
  by (auto simp: NodePublishVolume_mountFailed_def Let_def split: option.splits prod.splits
        intro!: extends_log_True extends_refl)

lemma NodePublishVolume_locked_only_trace:
  "extends (\<lambda>ev. True) st (snd (NodePublishVolume_locked ns req volumeCapability st))"
proof -
  obtain r st1 where x: "NodePublishVolume_source ns req volumeCapability
           (if publish_Readonly req then [''bind'', ''ro''] else [''bind'']) st = (r, st1)"
    by (cases "NodePublishVolume_source ns req volumeCapability
           (if publish_Readonly req then [''bind'', ''ro''] else [''bind'']) st")
  have e1: "extends (\<lambda>ev. True) st st1"
    using NodePublishVolume_source_only_trace [of st ns req volumeCapability
        "(if publish_Readonly req then [''bind'', ''ro''] else [''bind''])"] x by simp
  have e2: "extends (\<lambda>ev. True) st (log ev st1)" for ev
    using e1 by (rule extends_log_True)
  have e3: "extends (\<lambda>ev. True) st (snd (NodePublishVolume_mountFailed ns tp (log ev st1)))" for ev tp
    using e2 NodePublishVolume_mountFailed_only_trace by (rule extends_trans)
  show ?thesis
    using x e1 e2 e3
    by (auto simp: NodePublishVolume_locked_def Let_def extends_refl
          split: option.splits sum.splits prod.splits)
qed

lemma NodeStageVolume_locked_only_trace:
  "extends (\<lambda>ev. True) st (snd (NodeStageVolume_locked ns req volumeCapability st))"
proof -
  have d: "extends (\<lambda>ev. True) st (snd (NodeStageVolume_dataCache ns req devicePath st))" for devicePath
    by (rule NodeStageVolume_dataCache_extends) simp
  have "extends (\<lambda>ev. True) st (snd (NodeStageVolume_mount ns sp volumeCapability dev1 st1))"
    if "NodeStageVolume_dataCache ns req devicePath st = (r, st1)" for devicePath r st1 sp dev1
    using d [of devicePath] that NodeStageVolume_mount_only_trace [of st1] 
    by (auto intro: extends_trans)
  moreover have "extends (\<lambda>ev. True) st st1"
    if "NodeStageVolume_dataCache ns req devicePath st = (r, st1)" for devicePath r st1
    using d [of devicePath] that by simp
  ultimately show ?thesis
    by (auto simp: NodeStageVolume_locked_def Let_def extends_refl
          split: option.splits sum.splits prod.splits)
qed

lemma NodeStageVolume_locked_extends_mount:
  assumes acc: "AccessType volumeCapability = MountAccess mntFsType mountFlags"
  shows "extends (stageEventOk mntFsType mountFlags) st
           (snd (NodeStageVolume_locked ns req volumeCapability st))"
proof -
  let ?Q = "stageEventOk mntFsType mountFlags"
  have d: "extends ?Q st (snd (NodeStageVolume_dataCache ns req devicePath st))" for devicePath
    by (rule NodeStageVolume_dataCache_extends) (simp add: stageEventOk_def)
  have "extends ?Q st (snd (NodeStageVolume_mount ns sp volumeCapability dev1 st1))"
    if "NodeStageVolume_dataCache ns req devicePath st = (r, st1)" for devicePath r st1 sp dev1
    using d [of devicePath] that NodeStageVolume_mount_extends_mount [OF acc, of st1] 
    by (auto intro: extends_trans)
  moreover have "extends ?Q st st1"
    if "NodeStageVolume_dataCache ns req devicePath st = (r, st1)" for devicePath r st1
    using d [of devicePath] that by simp
  ultimately show ?thesis
    by (auto simp: NodeStageVolume_locked_def Let_def extends_refl
          split: option.splits sum.splits prod.splits)
qed

lemma withVolumeLock_held:
  "volumeID \<in> volumeLocks st \<Longrightarrow> withVolumeLock volumeID body st = (Inl Aborted, st)"
  by (simp add: withVolumeLock_def TryAcquire_def)

lemma withVolumeLock_free:
  "volumeID \<notin> volumeLocks st \<Longrightarrow>
     withVolumeLock volumeID body st =
       (case body (st\<lparr>volumeLocks := insert volumeID (volumeLocks st)\<rparr>) of
          (r, st1) \<Rightarrow> (r, st1\<lparr>volumeLocks := volumeLocks st1 - {volumeID}\<rparr>))"
  by (simp add: withVolumeLock_def TryAcquire_def Release_def)

lemma withVolumeLock_locks:
  assumes "\<And>s. volumeLocks (snd (body s)) = volumeLocks s"
  shows "volumeLocks (snd (withVolumeLock volumeID body st)) = volumeLocks st"
proof (cases "volumeID \<in> volumeLocks st")
  case True
  then show ?thesis by (simp add: withVolumeLock_held)
next
  case False
  obtain r st1 where b: "body (st\<lparr>volumeLocks := insert volumeID (volumeLocks st)\<rparr>) = (r, st1)"
    by (cases "body (st\<lparr>volumeLocks := insert volumeID (volumeLocks st)\<rparr>)")
  with assms [of "st\<lparr>volumeLocks := insert volumeID (volumeLocks st)\<rparr>"]
  have "volumeLocks st1 = insert volumeID (volumeLocks st)" by simp
  with False b show ?thesis by (simp add: withVolumeLock_free)
qed

lemma withVolumeLock_extends:
  assumes "\<And>s. extends Q s (snd (body s))"
  shows "extends Q st (snd (withVolumeLock volumeID body st))"
proof (cases "volumeID \<in> volumeLocks st")
  case True
  then show ?thesis by (simp add: withVolumeLock_held extends_refl)
next
  case False
  let ?s0 = "st\<lparr>volumeLocks := insert volumeID (volumeLocks st)\<rparr>"
  obtain r st1 where b: "body ?s0 = (r, st1)" by (cases "body ?s0")
  with assms [of ?s0] obtain evs where e: "st1 = ?s0\<lparr>trace := trace ?s0 @ evs\<rparr>" "list_all Q evs"
    by (auto simp: extends_def)
  have "st1\<lparr>volumeLocks := volumeLocks st1 - {volumeID}\<rparr> = st\<lparr>trace := trace st @ evs\<rparr>"
    using False by (simp add: e(1))
  with e(2) False b show ?thesis
    by (auto simp: withVolumeLock_free extends_def)
qed

subsection \<open>The gen4 prefixes\<close>

lemma GetAttachLimitsOverrideFromNodeLabel_error:
  "GetAttachLimitsOverrideFromNodeLabel ns nodeName = (x, Some e) \<Longrightarrow> x = 0"
  by (auto simp: GetAttachLimitsOverrideFromNodeLabel_def split: option.splits prod.splits)

lemma HasPrefix_append: "HasPrefix s p \<longleftrightarrow> (\<exists>r. s = p @ r)"
  unfolding HasPrefix_def
  by (metis append_eq_conv_conj append_take_drop_id)

lemma gen4Loop_prefix:
  assumes "gen4Prefix \<in> set gen4MachineTypesPrefix" "HasPrefix machineType gen4Prefix"
  shows "gen4Loop ns machineType gen4MachineTypesPrefix =
     (let machineTypeSlice = Split machineType CHR ''-'' in
         if length machineTypeSlice > 2 then
           (case ParseInt (machineTypeSlice ! 2) of
              None \<Rightarrow> Some (volumeLimitBig, Some ''invalid cpuString for machine type'')
            | Some cpus \<Rightarrow>
                Some (GetHyperdiskAttachLimit ns (TrimSuffix gen4Prefix ''-'') cpus, None))
         else Some (volumeLimitBig, Some ''unconventional machine type''))"
proof -
  from assms(2) obtain r where r: "machineType = gen4Prefix @ r"
    by (auto simp: HasPrefix_append)
  from assms(1) consider "gen4Prefix = ''c4a-''" | "gen4Prefix = ''c4-''" | "gen4Prefix = ''n4-''"
    | "gen4Prefix = ''c4d-''"
    by (auto simp: gen4MachineTypesPrefix_def)
  then show ?thesis
  proof cases
    case 1
    show ?thesis unfolding r 1 by (simp add: gen4MachineTypesPrefix_def HasPrefix_def)
  next
    case 2
    show ?thesis unfolding r 2 by (simp add: gen4MachineTypesPrefix_def HasPrefix_def)
  next
    case 3
    show ?thesis unfolding r 3 by (simp add: gen4MachineTypesPrefix_def HasPrefix_def)
  next
    case 4
    show ?thesis unfolding r 4 by (simp add: gen4MachineTypesPrefix_def HasPrefix_def)
  qed
qed

lemma gen4Loop_no_prefix:
  assumes "\<forall>p \<in> set ps. \<not> HasPrefix machineType p"
  shows "gen4Loop ns machineType ps = None"
  using assms by (induction ps) simp_all


subsection \<open>Paths through NodeStageVolume\<close>

lemma NodeStageVolume_reach_mount:
  assumes "stage_VolumeId req \<noteq> []"
    and "stage_StagingTargetPath req \<noteq> []"
    and "stage_VolumeCapability req = Some vc"
    and "stage_VolumeId req \<notin> volumeLocks st"
    and "validateVolumeCapability ns vc = None"
    and "VolumeIDToKey ns (stage_VolumeId req) = None"
    and "getDevicePath ns (trace st) (stage_VolumeId req)
           (lookupPartition ns (stage_VolumeContext req)) = (devicePath0, None)"
    and "NodeStageVolume_dataCache ns req devicePath0
           (st\<lparr>volumeLocks := insert (stage_VolumeId req) (volumeLocks st)\<rparr>) = (Inr devicePath, st1)"
  shows "NodeStageVolume ns req st =
           (case NodeStageVolume_mount ns (stage_StagingTargetPath req) vc devicePath st1 of
              (r, st2) \<Rightarrow> (r, st2\<lparr>volumeLocks := volumeLocks st2 - {stage_VolumeId req}\<rparr>))"
  using assms
  by (simp add: NodeStageVolume_def NodeStageVolume_locked_def withVolumeLock_free Let_def)

lemma NodeStageVolume_mount_formatAndMount_fails:
  assumes "\<not> isVolumePathMounted ns st1 stagingTargetPath"
    and "prepareStagePath ns (trace st1) stagingTargetPath = None"
    and "(AccessType vc = MountAccess mntFsType mountFlags
            \<and> extractReadAheadKBMountFlag mountFlags = (readAheadKB, shouldUpdateReadAhead, None)
            \<and> fstype = (if mntFsType \<noteq> [] then mntFsType else getDefaultFsType ns)
            \<and> baseOptions = collectMountOptions fstype mountFlags)
         \<or> (AccessType vc = NoAccess \<and> fstype = getDefaultFsType ns \<and> baseOptions = [])"
    and "readonly = fst (getReadOnlyFromCapability ns vc)"
    and "options = baseOptions @ (if readonly then [''ro''] else [])"
    and "h = trace st1 @ [PrepareStagePathEv stagingTargetPath]"
    and "formatAndMount ns h devicePath stagingTargetPath fstype options = Some err"
    and "retry = formatAndMount ns (h @ [FormatAndMountEv devicePath stagingTargetPath fstype options])
                   devicePath stagingTargetPath fstype (options @ [''noload''])"
  shows "NodeStageVolume_mount ns stagingTargetPath vc devicePath st1 =
           (if readonly \<and> (fstype = ''ext4'' \<or> fstype = ''ext3'')
            then (if retry = None then Inr () else Inl Internal,
                  st1\<lparr>trace := h @ [FormatAndMountEv devicePath stagingTargetPath fstype options,
                        FormatAndMountEv devicePath stagingTargetPath fstype (options @ [''noload''])]\<rparr>)
            else (Inl Internal,
                  st1\<lparr>trace := h @ [FormatAndMountEv devicePath stagingTargetPath fstype options]\<rparr>))"
  using assms(3)
proof
  assume a: "AccessType vc = MountAccess mntFsType mountFlags
            \<and> extractReadAheadKBMountFlag mountFlags = (readAheadKB, shouldUpdateReadAhead, None)
            \<and> fstype = (if mntFsType \<noteq> [] then mntFsType else getDefaultFsType ns)
            \<and> baseOptions = collectMountOptions fstype mountFlags"
  show ?thesis
    using assms(1,2,4-8) a
    by (cases readonly)
       (auto simp: NodeStageVolume_mount_def NodeStageVolume_formatAndMount_def Let_def log_def
          defaultLinuxFsType_def fsTypeExt3_def split: option.splits prod.splits)
next
  assume a: "AccessType vc = NoAccess \<and> fstype = getDefaultFsType ns \<and> baseOptions = []"
  show ?thesis
    using assms(1,2,4-8) a
    by (cases readonly)
       (auto simp: NodeStageVolume_mount_def NodeStageVolume_formatAndMount_def Let_def log_def
          defaultLinuxFsType_def fsTypeExt3_def split: option.splits prod.splits)
qed


lemmas example_defs = exampleServer_def emptyState_def stageRequest_def mountFailsUnless_def

lemmas stage_defs = NodeStageVolume_def NodeStageVolume_locked_def NodeStageVolume_dataCache_def
  NodeStageVolume_mount_def NodeStageVolume_formatAndMount_def NodeStageVolume_tune_def
  NodeStageVolume_resize_def NodeStageVolume_readAhead_def NodeStageVolume_sysfs_def
  withVolumeLock_def TryAcquire_def Release_def isVolumePathMounted_def lookupPartition_def mapGet_def
  getDefaultFsType_def collectMountOptions_def isTunableFlag_def readAheadKBMountFlagRegex_def
  btrfsReclaimDataRegex_def btrfsReclaimMetadataRegex_def digits12_def extractBtrfsReclaimFlags_def
  sysfsEntries_def updateReadAhead_def writeSysfs_def errorsJoin_def TrimRightNewline_def
  ParseInt_def ParseUint_def isDigit_def digitVal_def
  defaultLinuxFsType_def defaultWindowsFsType_def fsTypeExt3_def fsTypeBtrfs_def log_def Let_def

lemma extractReadAheadKBMountFlag_first:
  assumes "\<forall>f \<in> set pre. readAheadKBMountFlagRegex f = None"
    and "readAheadKBMountFlagRegex tok = Some v"
  shows "extractReadAheadKBMountFlag (pre @ tok # post) =
           (case ParseInt v of
              None \<Rightarrow> (-1, False, Some ''invalid read_ahead_kb mount flag'')
            | Some n \<Rightarrow>
                if n < 0 then (-1, False, Some ''invalid negative value for read_ahead_kb mount flag'')
                else (n, True, None))"
  using assms by (induction pre) simp_all

lemma extractReadAheadKBMountFlag_none:
  "\<forall>f \<in> set flags. readAheadKBMountFlagRegex f = None \<Longrightarrow>
     extractReadAheadKBMountFlag flags = (-1, False, None)"
  by (induction flags) simp_all

lemma NodeStageVolume_extends_mount:
  assumes "stage_VolumeCapability req = Some vc"
    and "AccessType vc = MountAccess mntFsType mountFlags"
  shows "extends (stageEventOk mntFsType mountFlags) st (snd (NodeStageVolume ns req st))"
proof -
  have "extends (stageEventOk mntFsType mountFlags) st
          (snd (withVolumeLock (stage_VolumeId req) (NodeStageVolume_locked ns req vc) st))"
    by (rule withVolumeLock_extends) (rule NodeStageVolume_locked_extends_mount [OF assms(2)])
  with assms(1) show ?thesis
    by (simp add: NodeStageVolume_def Let_def extends_refl)
qed

lemma NodeStageVolume_dataCache_trace:
  assumes "NodeStageVolume_dataCache ns req devicePath0 st0 = (r, st1)"
  shows "\<exists>evs. trace st1 = trace st0 @ evs \<and> (\<forall>ev \<in> set evs. \<exists>d n. ev = SetupCachingEv d n)"
proof -
  have "extends (\<lambda>ev. \<exists>d n. ev = SetupCachingEv d n) st0
          (snd (NodeStageVolume_dataCache ns req devicePath0 st0))"
    by (rule NodeStageVolume_dataCache_extends) blast
  with assms show ?thesis
    by (auto simp: extends_def list_all_iff)
qed


subsection \<open>The lock set and the device-in-use check\<close>

lemma NodeUnstageVolume_deviceInUse_locks:
  "volumeLocks (snd (NodeUnstageVolume_deviceInUse ns volumeID st)) = volumeLocks st"
  by (simp add: NodeUnstageVolume_deviceInUse_def deleteDevice_def markDeviceError_def
        split: option.splits)

lemma NodeUnstageVolume_locked_locks:
  "volumeLocks (snd (NodeUnstageVolume_locked ns volumeID stagingTargetPath st)) = volumeLocks st"
proof -
  obtain r st2 where d: "NodeUnstageVolume_deviceInUse ns volumeID
                           (log (CleanupStagePathEv stagingTargetPath) st) = (r, st2)"
    by (cases "NodeUnstageVolume_deviceInUse ns volumeID (log (CleanupStagePathEv stagingTargetPath) st)")
  have "volumeLocks st2 = volumeLocks st"
    using NodeUnstageVolume_deviceInUse_locks [of ns volumeID "log (CleanupStagePathEv stagingTargetPath) st"] d
    by (simp add: log_def)
  with d show ?thesis
    by (simp add: NodeUnstageVolume_locked_def Let_def log_def split: option.splits)
qed

lemma NodeStageVolume_locks: "volumeLocks (snd (NodeStageVolume ns req st)) = volumeLocks st"
proof -
  have "volumeLocks (snd (withVolumeLock v (NodeStageVolume_locked ns req vc) st)) = volumeLocks st" for v vc
    by (rule withVolumeLock_locks) (rule extends_locks, rule NodeStageVolume_locked_only_trace)
  then show ?thesis
    by (simp add: NodeStageVolume_def Let_def split: option.splits)
qed

lemma NodePublishVolume_locks: "volumeLocks (snd (NodePublishVolume ns req st)) = volumeLocks st"
proof -
  have "volumeLocks (snd (withVolumeLock v (NodePublishVolume_locked ns req vc) st)) = volumeLocks st" for v vc
    by (rule withVolumeLock_locks) (rule extends_locks, rule NodePublishVolume_locked_only_trace)
  then show ?thesis
    by (simp add: NodePublishVolume_def Let_def split: option.splits)
qed

lemma NodeUnpublishVolume_locks: "volumeLocks (snd (NodeUnpublishVolume ns req st)) = volumeLocks st"
proof -
  have "volumeLocks (snd (withVolumeLock v
          (\<lambda>st0. let st1 = log (CleanupPublishPathEv tp) st0 in
             case cleanupPublishPath ns (trace st0) tp of
               Some err \<Rightarrow> (Inl Internal, st1)
             | None \<Rightarrow> (Inr (), st1)) st)) = volumeLocks st" for v tp
    by (rule withVolumeLock_locks) (simp add: Let_def log_def split: option.splits)
  then show ?thesis
    by (simp add: NodeUnpublishVolume_def Let_def)
qed

lemma NodeUnstageVolume_locks: "volumeLocks (snd (NodeUnstageVolume ns req st)) = volumeLocks st"
proof -
  have "volumeLocks (snd (withVolumeLock v (NodeUnstageVolume_locked ns v sp) st)) = volumeLocks st" for v sp
    by (rule withVolumeLock_locks) (rule NodeUnstageVolume_locked_locks)
  then show ?thesis
    by (simp add: NodeUnstageVolume_def Let_def)
qed


lemmas lifecycle_defs = NodePublishVolume_def NodePublishVolume_locked_def NodePublishVolume_source_def
  NodePublishVolume_mountFailed_def makeFile_def NodeUnpublishVolume_def NodeUnstageVolume_def
  NodeUnstageVolume_locked_def NodeUnstageVolume_deviceInUse_def confirmDeviceUnused_def
  deviceErrorExpired_def markDeviceError_def deleteDevice_def


lemma NodeUnstageVolume_reach_check:
  assumes "unstage_VolumeId req = volumeID"
    and "volumeID \<noteq> []"
    and "unstage_StagingTargetPath req = stagingTargetPath"
    and "stagingTargetPath \<noteq> []"
    and "volumeID \<notin> volumeLocks st"
    and "cleanupStagePath ns (trace st) stagingTargetPath = None"
  shows "NodeUnstageVolume ns req st =
           (case NodeUnstageVolume_deviceInUse ns volumeID
                   (st\<lparr>volumeLocks := insert volumeID (volumeLocks st),
                       trace := trace st @ [CleanupStagePathEv stagingTargetPath]\<rparr>) of
              (Some c, st2) \<Rightarrow> (Inl c, st2\<lparr>volumeLocks := volumeLocks st2 - {volumeID}\<rparr>)
            | (None, st2) \<Rightarrow>
                if EnableDataCache ns \<and> DataCacheEnabledNodePool ns then
                  (case cleanupCache ns (trace st2) volumeID (GetName ns) of
                     Some err \<Rightarrow> (Inl DataLoss,
                        st2\<lparr>trace := trace st2 @ [CleanupCacheEv volumeID (GetName ns)],
                            volumeLocks := volumeLocks st2 - {volumeID}\<rparr>)
                   | None \<Rightarrow> (Inr (),
                        st2\<lparr>trace := trace st2 @ [CleanupCacheEv volumeID (GetName ns)],
                            volumeLocks := volumeLocks st2 - {volumeID}\<rparr>))
                else (Inr (), st2\<lparr>volumeLocks := volumeLocks st2 - {volumeID}\<rparr>))"
  using assms
  by (auto simp: NodeUnstageVolume_def NodeUnstageVolume_locked_def withVolumeLock_free Let_def log_def
        split: prod.splits option.splits)

lemma confirmDeviceUnused_cases:
  assumes "getDevicePath ns (trace st) volumeID [] = (devicePath, pathErr)"
    and "EvalSymlinks ns (trace st) devicePath = (devFsPath, linkErr)"
    and "IsDeviceFilesystemInUse ns (trace st) devicePath devFsPath = (inUse, queryErr)"
  shows "(case confirmDeviceUnused ns st volumeID of
            None \<Rightarrow> pathErr = None \<and> linkErr = None \<and> queryErr = None \<and> \<not> inUse
          | Some err \<Rightarrow>
              if isIgnoreable err then \<not> (pathErr = None \<and> linkErr = None \<and> queryErr = None)
              else pathErr = None \<and> linkErr = None \<and> queryErr = None \<and> inUse)"
  using assms
  by (auto simp: confirmDeviceUnused_def split: option.splits)

lemma NodeUnstageVolume_deviceInUse_cases:
  assumes "enableDeviceInUseCheck ns"
    and "getDevicePath ns (trace st) volumeID [] = (devicePath, pathErr)"
    and "EvalSymlinks ns (trace st) devicePath = (devFsPath, linkErr)"
    and "IsDeviceFilesystemInUse ns (trace st) devicePath devFsPath = (inUse, queryErr)"
  shows "NodeUnstageVolume_deviceInUse ns volumeID st =
           (if pathErr = None \<and> linkErr = None \<and> queryErr = None \<and> inUse then
              (case deviceInUseErrors st volumeID of
                 None \<Rightarrow> (Some Internal, st\<lparr>deviceInUseErrors := (deviceInUseErrors st)(volumeID \<mapsto> timeNow ns)\<rparr>)
               | Some t \<Rightarrow>
                   if deviceInUseTimeout ns \<le> timeNow ns - t
                   then (None, st\<lparr>deviceInUseErrors := (deviceInUseErrors st)(volumeID := None)\<rparr>)
                   else (Some Internal, st))
            else (None, st\<lparr>deviceInUseErrors := (deviceInUseErrors st)(volumeID := None)\<rparr>))"
  using confirmDeviceUnused_cases [OF assms(2-4)] assms(1)
  by (auto simp: NodeUnstageVolume_deviceInUse_def deviceErrorExpired_def markDeviceError_def
        deleteDevice_def split: option.splits if_splits)


section \<open>The claims\<close>

subsection \<open>NodeExpandVolume\<close>

lemma NodeExpandVolume_capability_size_reader:
  "NodeExpandVolume_capability (ns\<lparr>getBlockSizeBytes := f\<rparr>) cap = NodeExpandVolume_capability ns cap"
  by (auto simp: NodeExpandVolume_capability_def split: option.splits prod.splits)

lemma NodeExpandVolume_resize_size_error:
  "NodeExpandVolume_resize (ns\<lparr>getBlockSizeBytes := (\<lambda>h d. (fst (getBlockSizeBytes ns h d), e h d))\<rparr>)
       reqBytes devicePath volumePath st
     = NodeExpandVolume_resize ns reqBytes devicePath volumePath st"
  by (auto simp: NodeExpandVolume_resize_def Let_def split: option.splits prod.splits)

lemma NodeExpandVolume_verification:
  assumes "expand_VolumeId req \<noteq> []"
    and "getRequestCapacity ns (expand_CapacityRange req) = (reqBytes, None)"
    and "expand_VolumePath req \<noteq> []"
    and "VolumeIDToKey ns (expand_VolumeId req) = None"
    and "getDevicePath ns (trace st) (expand_VolumeId req) [] = (devicePath, None)"
    and "NodeExpandVolume_capability ns (expand_VolumeCapability req) = None"
    and "ResizeFs ns (trace st) devicePath (expand_VolumePath req) = None"
    and "getBlockSizeBytes ns (trace st @ [ResizeEv devicePath (expand_VolumePath req)]) devicePath
           = (diskSizeBytes, err)"
  shows "fst (NodeExpandVolume ns req st) =
           (if diskSizeBytes < reqBytes then Inl Internal else Inr \<lparr>CapacityBytes = reqBytes\<rparr>)"
  using assms by (simp add: NodeExpandVolume_def NodeExpandVolume_resize_def log_def Let_def)

text \<open>
  Claim C3. A NodeExpandVolume call that reaches the check after the resize (volume ID and
  path given, capacity range, volume ID and capability accepted, device found, resize
  done) fails exactly when the measured device size is strictly smaller than the requested
  bytes, and then with Internal; when the measured size is at least the request, also when
  it is larger, the call succeeds and the capacity it reports is the requested bytes, not
  the measured size.
\<close>

theorem NodeExpandVolume_size_check:
  assumes "expand_VolumeId req \<noteq> []"
    and "getRequestCapacity ns (expand_CapacityRange req) = (reqBytes, None)"
    and "expand_VolumePath req \<noteq> []"
    and "VolumeIDToKey ns (expand_VolumeId req) = None"
    and "getDevicePath ns (trace st) (expand_VolumeId req) [] = (devicePath, None)"
    and "NodeExpandVolume_capability ns (expand_VolumeCapability req) = None"
    and "ResizeFs ns (trace st) devicePath (expand_VolumePath req) = None"
    and "getBlockSizeBytes ns (trace st @ [ResizeEv devicePath (expand_VolumePath req)]) devicePath
           = (diskSizeBytes, err)"
  shows "(isl (fst (NodeExpandVolume ns req st)) \<longleftrightarrow> diskSizeBytes < reqBytes)
       \<and> (diskSizeBytes < reqBytes \<longrightarrow> fst (NodeExpandVolume ns req st) = Inl Internal)
       \<and> (reqBytes \<le> diskSizeBytes \<longrightarrow>
            fst (NodeExpandVolume ns req st) = Inr \<lparr>CapacityBytes = reqBytes\<rparr>)"
  using NodeExpandVolume_verification [OF assms] by simp

theorem NodeExpandVolume_size_check_witness:
  "fst (NodeExpandVolume exampleServer expandReq emptyState) = Inr \<lparr>CapacityBytes = 10737418240\<rparr>
   \<and> fst (NodeExpandVolume (exampleServer\<lparr>getBlockSizeBytes := (\<lambda>h d. (10737418239, None))\<rparr>)
            expandReq emptyState) = Inl Internal"
  using NodeExpandVolume_size_check [of expandReq exampleServer 10737418240 emptyState
            "''/dev/sdb''" 11811160064 None]
        NodeExpandVolume_size_check [of expandReq
            "exampleServer\<lparr>getBlockSizeBytes := (\<lambda>h d. (10737418239, None))\<rparr>"
            10737418240 emptyState "''/dev/sdb''" 10737418239 None]
  by (simp add: exampleServer_def expandReq_def emptyState_def NodeExpandVolume_capability_def)

text \<open>
  Claim C10. The error that comes back from the size read after the resize is never
  surfaced: replacing it by any other error value, or by none, leaves the outcome of
  NodeExpandVolume as it is, so the outcome depends on the returned size alone. A size
  read that fails while returning a value at least as large as the request still yields
  success, reporting the requested bytes.
\<close>

theorem NodeExpandVolume_size_error_ignored:
  assumes "expand_VolumeId req \<noteq> []"
    and "getRequestCapacity ns (expand_CapacityRange req) = (reqBytes, None)"
    and "expand_VolumePath req \<noteq> []"
    and "VolumeIDToKey ns (expand_VolumeId req) = None"
    and "getDevicePath ns (trace st) (expand_VolumeId req) [] = (devicePath, None)"
    and "NodeExpandVolume_capability ns (expand_VolumeCapability req) = None"
    and "ResizeFs ns (trace st) devicePath (expand_VolumePath req) = None"
    and "getBlockSizeBytes ns (trace st @ [ResizeEv devicePath (expand_VolumePath req)]) devicePath
           = (diskSizeBytes, Some readError)"
    and "reqBytes \<le> diskSizeBytes"
  shows "fst (NodeExpandVolume ns req st) = Inr \<lparr>CapacityBytes = reqBytes\<rparr>
       \<and> (\<forall>e. NodeExpandVolume
                 (ns\<lparr>getBlockSizeBytes := (\<lambda>h d. (fst (getBlockSizeBytes ns h d), e h d))\<rparr>) req st
               = NodeExpandVolume ns req st)"
proof
  show "fst (NodeExpandVolume ns req st) = Inr \<lparr>CapacityBytes = reqBytes\<rparr>"
    using NodeExpandVolume_verification [OF assms(1-8)] assms(9) by simp
  show "\<forall>e. NodeExpandVolume
                 (ns\<lparr>getBlockSizeBytes := (\<lambda>h d. (fst (getBlockSizeBytes ns h d), e h d))\<rparr>) req st
               = NodeExpandVolume ns req st"
    by (auto simp: NodeExpandVolume_def NodeExpandVolume_capability_size_reader
          NodeExpandVolume_resize_size_error Let_def split: option.splits prod.splits)
qed

theorem NodeExpandVolume_size_error_ignored_witness:
  "fst (NodeExpandVolume
          (exampleServer\<lparr>getBlockSizeBytes := (\<lambda>h d. (11811160064, Some ''blockdev failed''))\<rparr>)
          expandReq emptyState) = Inr \<lparr>CapacityBytes = 10737418240\<rparr>"
  using NodeExpandVolume_size_error_ignored [of expandReq
            "exampleServer\<lparr>getBlockSizeBytes := (\<lambda>h d. (11811160064, Some ''blockdev failed''))\<rparr>"
            10737418240 emptyState "''/dev/sdb''" 11811160064 "''blockdev failed''"]
  by (simp add: exampleServer_def expandReq_def emptyState_def NodeExpandVolume_capability_def)

subsection \<open>NodeGetInfo and the attach limit\<close>

text \<open>
  Claim C8. NodeGetInfo never returns an error: whatever the attach-limit computation
  returns, a failure included, the error of the result is nil and the response holds the
  node ID, the zone topology and the limit that the computation returned.
\<close>

theorem NodeGetInfo_never_fails:
  "snd (NodeGetInfo ns) = None
   \<and> NodeId (fst (NodeGetInfo ns)) = CreateNodeID ns (GetProject ns) (GetZone ns) (GetName ns)
   \<and> AccessibleTopology (fst (NodeGetInfo ns)) = [(TopologyKeyZone ns, GetZone ns)]
   \<and> MaxVolumesPerNode (fst (NodeGetInfo ns)) = fst (GetVolumeLimits ns)"
  by (simp add: NodeGetInfo_def Let_def split: prod.splits)

theorem NodeGetInfo_never_fails_witness:
  "snd (GetVolumeLimits (withMachineType ''c4d-standard'')) = Some ''unconventional machine type''
   \<and> NodeGetInfo (withMachineType ''c4d-standard'')
       = (\<lparr>NodeId = ''proj/us-central1-a/node-1'', MaxVolumesPerNode = 127,
           AccessibleTopology = [(''topology.gke.io/zone'', ''us-central1-a'')]\<rparr>, None)"
  using NodeGetInfo_never_fails [of "withMachineType ''c4d-standard''"]
  by (simp add: NodeGetInfo_def GetVolumeLimits_def withMachineType_def exampleServer_def
        smallMachineTypes_def gen4MachineTypesPrefix_def GetAttachLimitsOverrideFromNodeLabel_def
        HasPrefix_def volumeLimitBig_def)

text \<open>
  Claim C7. The attach-limit resolver maps the machine type in this order. A machine type
  that is one of f1-micro, g1-small, e2-micro, e2-small, e2-medium gives 15, whatever the
  override. Otherwise an override that lies strictly between 0 and 128 is returned (an
  override that comes with an error is 0). Otherwise, for a machine type starting with one
  of c4a-, c4-, n4-, c4d-: when it has at least three dash-separated fields and the third
  parses as an integer, the result is the hyperdisk limit of that family (the prefix
  without its dash) for that CPU count; when it has fewer than three fields or the third
  does not parse, the result is 127 together with an error. Otherwise x4- gives 39, a4-
  gives 127, and anything else 127.
\<close>

theorem GetVolumeLimits_priority:
  assumes mt: "machineType = GetMachineType ns"
    and ov: "GetAttachLimitsOverrideFromNodeLabel ns (GetName ns) = (x, err)"
  shows "(machineType \<in> {''f1-micro'', ''g1-small'', ''e2-micro'', ''e2-small'', ''e2-medium''} \<longrightarrow>
            GetVolumeLimits ns = (15, None))
       \<and> (machineType \<notin> {''f1-micro'', ''g1-small'', ''e2-micro'', ''e2-small'', ''e2-medium''}
            \<and> 0 < x \<and> x < 128 \<longrightarrow>
            GetVolumeLimits ns = (x, None))
       \<and> (machineType \<notin> {''f1-micro'', ''g1-small'', ''e2-micro'', ''e2-small'', ''e2-medium''}
            \<and> \<not> (0 < x \<and> x < 128) \<longrightarrow>
            (\<forall>p \<in> {''c4a-'', ''c4-'', ''n4-'', ''c4d-''}. HasPrefix machineType p \<longrightarrow>
               (\<forall>cpus. 2 < length (Split machineType CHR ''-'')
                    \<and> ParseInt (Split machineType CHR ''-'' ! 2) = Some cpus \<longrightarrow>
                  GetVolumeLimits ns = (GetHyperdiskAttachLimit ns (TrimSuffix p ''-'') cpus, None))
               \<and> (length (Split machineType CHR ''-'') < 3
                    \<or> ParseInt (Split machineType CHR ''-'' ! 2) = None \<longrightarrow>
                  fst (GetVolumeLimits ns) = 127 \<and> snd (GetVolumeLimits ns) \<noteq> None))
            \<and> ((\<forall>p \<in> {''c4a-'', ''c4-'', ''n4-'', ''c4d-''}. \<not> HasPrefix machineType p) \<longrightarrow>
                 GetVolumeLimits ns =
                   (if HasPrefix machineType ''x4-'' then (39, None)
                    else if HasPrefix machineType ''a4-'' then (127, None)
                    else (127, None))))"
proof (intro conjI impI)
  assume "machineType \<in> {''f1-micro'', ''g1-small'', ''e2-micro'', ''e2-small'', ''e2-medium''}"
  then show "GetVolumeLimits ns = (15, None)"
    using mt by (auto simp: GetVolumeLimits_def smallMachineTypes_def volumeLimitSmall_def Let_def)
next
  assume "machineType \<notin> {''f1-micro'', ''g1-small'', ''e2-micro'', ''e2-small'', ''e2-medium''}
            \<and> 0 < x \<and> x < 128"
  then show "GetVolumeLimits ns = (x, None)"
    using mt ov GetAttachLimitsOverrideFromNodeLabel_error [of ns "GetName ns" x]
    by (auto simp: GetVolumeLimits_def smallMachineTypes_def Let_def)
next
  assume a: "machineType \<notin> {''f1-micro'', ''g1-small'', ''e2-micro'', ''e2-small'', ''e2-medium''}
            \<and> \<not> (0 < x \<and> x < 128)"
  then have g: "GetVolumeLimits ns =
      (case gen4Loop ns machineType gen4MachineTypesPrefix of
         Some r \<Rightarrow> r
       | None \<Rightarrow>
           if HasPrefix machineType ''x4-'' then (x4HyperdiskLimit, None)
           else if HasPrefix machineType ''a4-'' then (a4HyperdiskLimit, None)
           else (volumeLimitBig, None))"
    using mt ov by (auto simp: GetVolumeLimits_def smallMachineTypes_def Let_def)
  show "\<forall>p \<in> {''c4a-'', ''c4-'', ''n4-'', ''c4d-''}. HasPrefix machineType p \<longrightarrow>
               (\<forall>cpus. 2 < length (Split machineType CHR ''-'')
                    \<and> ParseInt (Split machineType CHR ''-'' ! 2) = Some cpus \<longrightarrow>
                  GetVolumeLimits ns = (GetHyperdiskAttachLimit ns (TrimSuffix p ''-'') cpus, None))
               \<and> (length (Split machineType CHR ''-'') < 3
                    \<or> ParseInt (Split machineType CHR ''-'' ! 2) = None \<longrightarrow>
                  fst (GetVolumeLimits ns) = 127 \<and> snd (GetVolumeLimits ns) \<noteq> None)"
  proof (intro ballI impI)
    fix p assume p: "p \<in> {''c4a-'', ''c4-'', ''n4-'', ''c4d-''}" and h: "HasPrefix machineType p"
    from p have "p \<in> set gen4MachineTypesPrefix" by (simp add: gen4MachineTypesPrefix_def)
    note l = gen4Loop_prefix [OF this h, of ns]
    show "(\<forall>cpus. 2 < length (Split machineType CHR ''-'')
                    \<and> ParseInt (Split machineType CHR ''-'' ! 2) = Some cpus \<longrightarrow>
                  GetVolumeLimits ns = (GetHyperdiskAttachLimit ns (TrimSuffix p ''-'') cpus, None))
               \<and> (length (Split machineType CHR ''-'') < 3
                    \<or> ParseInt (Split machineType CHR ''-'' ! 2) = None \<longrightarrow>
                  fst (GetVolumeLimits ns) = 127 \<and> snd (GetVolumeLimits ns) \<noteq> None)"
      unfolding g l
      by (auto simp: Let_def volumeLimitBig_def split: option.splits)
  qed
  show "GetVolumeLimits ns =
                   (if HasPrefix machineType ''x4-'' then (39, None)
                    else if HasPrefix machineType ''a4-'' then (127, None)
                    else (127, None))"
    if "\<forall>p \<in> {''c4a-'', ''c4-'', ''n4-'', ''c4d-''}. \<not> HasPrefix machineType p"
  proof -
    from that have "\<forall>p \<in> set gen4MachineTypesPrefix. \<not> HasPrefix machineType p"
      by (simp add: gen4MachineTypesPrefix_def)
    then have "gen4Loop ns machineType gen4MachineTypesPrefix = None"
      by (rule gen4Loop_no_prefix)
    then show ?thesis
      unfolding g
      by (simp add: x4HyperdiskLimit_def a4HyperdiskLimit_def volumeLimitBig_def)
  qed
qed

theorem GetVolumeLimits_priority_witness:
  "GetVolumeLimits (withMachineType ''e2-medium'') = (15, None)
   \<and> GetVolumeLimits (withOverrideLabel ''n2-standard-8'' ''64'') = (64, None)
   \<and> GetVolumeLimits (withOverrideLabel ''e2-small'' ''64'') = (15, None)
   \<and> GetVolumeLimits (withOverrideLabel ''c4-standard-8'' ''128'') = (31, None)
   \<and> GetVolumeLimits (withMachineType ''c4a-highmem-4'') = (15, None)
   \<and> GetVolumeLimits (withMachineType ''c4d-standard'') = (127, Some ''unconventional machine type'')
   \<and> GetVolumeLimits (withMachineType ''n4-standard-x'') = (127, Some ''invalid cpuString for machine type'')
   \<and> GetVolumeLimits (withMachineType ''x4-megamem-960-metal'') = (39, None)
   \<and> GetVolumeLimits (withMachineType ''a4-highgpu-8g'') = (127, None)
   \<and> GetVolumeLimits (withMachineType ''n2-standard-8'') = (127, None)"
  using GetVolumeLimits_priority [of "''e2-medium''" "withMachineType ''e2-medium''" 0 None]
        GetVolumeLimits_priority [of "''n2-standard-8''" "withOverrideLabel ''n2-standard-8'' ''64''" 64 None]
        GetVolumeLimits_priority [of "''c4-standard-8''" "withOverrideLabel ''c4-standard-8'' ''128''" 128 None]
        GetVolumeLimits_priority [of "''c4d-standard''" "withMachineType ''c4d-standard''" 0 None]
        GetVolumeLimits_priority [of "''x4-megamem-960-metal''" "withMachineType ''x4-megamem-960-metal''" 0 None]
  by (simp add: GetVolumeLimits_def withMachineType_def withOverrideLabel_def exampleServer_def
        smallMachineTypes_def gen4MachineTypesPrefix_def GetAttachLimitsOverrideFromNodeLabel_def
        HasPrefix_def HasSuffix_def TrimSuffix_def ParseInt_def ParseUint_def isDigit_def digitVal_def
        volumeLimitSmall_def volumeLimitBig_def x4HyperdiskLimit_def a4HyperdiskLimit_def)

subsection \<open>NodeStageVolume\<close>

text \<open>
  Claim C4. In a NodeStageVolume call that reaches the format-and-mount step (fields given,
  lock free, capability and volume ID accepted, device found, data-cache block passed,
  staging path not mounted and prepared, and either a mount capability whose flags parse or
  a capability that is neither mount nor block), when that step fails: the step is tried a
  second time exactly when the capability is read-only and the file-system type is ext4 or
  ext3, once, with the options of the first attempt followed by noload; the call then
  succeeds if the retry succeeds and returns Internal if it fails. In every other case
  there is no second attempt and the call returns Internal. The history shows the
  attempts: one, or two with noload appended.
\<close>

theorem NodeStageVolume_noload_retry:
  assumes "stage_VolumeId req \<noteq> []"
    and "stage_StagingTargetPath req = stagingTargetPath"
    and "stagingTargetPath \<noteq> []"
    and "stage_VolumeCapability req = Some vc"
    and "stage_VolumeId req \<notin> volumeLocks st"
    and "validateVolumeCapability ns vc = None"
    and "VolumeIDToKey ns (stage_VolumeId req) = None"
    and "getDevicePath ns (trace st) (stage_VolumeId req)
           (lookupPartition ns (stage_VolumeContext req)) = (devicePath0, None)"
    and "NodeStageVolume_dataCache ns req devicePath0
           (st\<lparr>volumeLocks := insert (stage_VolumeId req) (volumeLocks st)\<rparr>) = (Inr devicePath, st1)"
    and "\<not> isVolumePathMounted ns st1 stagingTargetPath"
    and "prepareStagePath ns (trace st1) stagingTargetPath = None"
    and "(AccessType vc = MountAccess mntFsType mountFlags
            \<and> extractReadAheadKBMountFlag mountFlags = (readAheadKB, shouldUpdateReadAhead, None)
            \<and> fstype = (if mntFsType \<noteq> [] then mntFsType else getDefaultFsType ns)
            \<and> baseOptions = collectMountOptions fstype mountFlags)
         \<or> (AccessType vc = NoAccess \<and> fstype = getDefaultFsType ns \<and> baseOptions = [])"
    and "readonly = fst (getReadOnlyFromCapability ns vc)"
    and "options = baseOptions @ (if readonly then [''ro''] else [])"
    and "h = trace st1 @ [PrepareStagePathEv stagingTargetPath]"
    and "formatAndMount ns h devicePath stagingTargetPath fstype options = Some err"
    and "retry = formatAndMount ns (h @ [FormatAndMountEv devicePath stagingTargetPath fstype options])
                   devicePath stagingTargetPath fstype (options @ [''noload''])"
  shows "trace (snd (NodeStageVolume ns req st)) =
           h @ [FormatAndMountEv devicePath stagingTargetPath fstype options]
             @ (if readonly \<and> (fstype = ''ext4'' \<or> fstype = ''ext3'')
                then [FormatAndMountEv devicePath stagingTargetPath fstype (options @ [''noload''])]
                else [])
       \<and> fst (NodeStageVolume ns req st) =
           (if readonly \<and> (fstype = ''ext4'' \<or> fstype = ''ext3'') \<and> retry = None
            then Inr () else Inl Internal)"
proof -
  have sp: "stage_StagingTargetPath req \<noteq> []" using assms(2,3) by simp
  note r = NodeStageVolume_reach_mount [OF assms(1) sp assms(4-9), unfolded assms(2)]
  note m = NodeStageVolume_mount_formatAndMount_fails [OF assms(10-17)]
  show ?thesis
    unfolding r m by simp
qed


theorem NodeStageVolume_noload_retry_witness:
  "NodeStageVolume (mountFailsUnless ''noload'') (stageRequest ''ext4'' [''noatime''] 2) emptyState
     = (Inr (), emptyState\<lparr>trace := [PrepareStagePathEv ''/staging'',
          FormatAndMountEv ''/dev/sdb'' ''/staging'' ''ext4'' [''noatime'', ''ro''],
          FormatAndMountEv ''/dev/sdb'' ''/staging'' ''ext4'' [''noatime'', ''ro'', ''noload'']]\<rparr>)
   \<and> NodeStageVolume (mountFailsUnless ''never'') (stageRequest ''ext3'' [''noatime''] 2) emptyState
     = (Inl Internal, emptyState\<lparr>trace := [PrepareStagePathEv ''/staging'',
          FormatAndMountEv ''/dev/sdb'' ''/staging'' ''ext3'' [''noatime'', ''ro''],
          FormatAndMountEv ''/dev/sdb'' ''/staging'' ''ext3'' [''noatime'', ''ro'', ''noload'']]\<rparr>)
   \<and> NodeStageVolume (mountFailsUnless ''noload'') (stageRequest ''xfs'' [''noatime''] 2) emptyState
     = (Inl Internal, emptyState\<lparr>trace := [PrepareStagePathEv ''/staging'',
          FormatAndMountEv ''/dev/sdb'' ''/staging'' ''xfs'' [''noatime'', ''ro'']]\<rparr>)
   \<and> NodeStageVolume (mountFailsUnless ''noload'') (stageRequest ''ext4'' [''noatime''] 1) emptyState
     = (Inl Internal, emptyState\<lparr>trace := [PrepareStagePathEv ''/staging'',
          FormatAndMountEv ''/dev/sdb'' ''/staging'' ''ext4'' [''noatime'']]\<rparr>)"
  using NodeStageVolume_noload_retry
          [where ns = "mountFailsUnless ''noload''" and req = "stageRequest ''ext4'' [''noatime''] 2"
             and st = emptyState and stagingTargetPath = "''/staging''"
             and vc = "\<lparr>AccessType = MountAccess ''ext4'' [''noatime''], AccessMode = 2\<rparr>"
             and devicePath0 = "''/dev/sdb''" and devicePath = "''/dev/sdb''"
             and ?st1.0 = "emptyState\<lparr>volumeLocks := {''projects/p/zones/z/disks/d''}\<rparr>"
             and mntFsType = "''ext4''" and mountFlags = "[''noatime'']" and readAheadKB = "-1"
             and shouldUpdateReadAhead = False and fstype = "''ext4''" and readonly = True
             and baseOptions = "[''noatime'']"
             and options = "[''noatime'', ''ro'']" and h = "[PrepareStagePathEv ''/staging'']"
             and err = "''mount failed''" and retry = None]
  by (simp add: example_defs stage_defs)



text \<open>
  Claim C6, amended. In a NodeStageVolume call that reaches the data-cache block (fields
  given, lock free, capability and volume ID accepted, device found) with the global cache
  flag set and a data-cache size or mode in the publish context: when the node name is not
  empty and the cache configuration is invalid, the call fails with DataLoss if the node
  pool is cache-enabled and with InvalidArgument if it is not; when the node name is empty,
  the call fails with InvalidArgument, whatever the node pool and whatever the cache
  configuration, since the block checks the node name first. In both cases the state is
  left as it was. The claim as stated promises DataLoss on a cache-enabled pool for every
  invalid configuration; the counterexample is a cache-enabled pool with an empty node
  name.
\<close>

theorem NodeStageVolume_invalid_cache_config:
  assumes "stage_VolumeId req \<noteq> []"
    and "stage_StagingTargetPath req \<noteq> []"
    and "stage_VolumeCapability req = Some vc"
    and "stage_VolumeId req \<notin> volumeLocks st"
    and "validateVolumeCapability ns vc = None"
    and "VolumeIDToKey ns (stage_VolumeId req) = None"
    and "getDevicePath ns (trace st) (stage_VolumeId req)
           (lookupPartition ns (stage_VolumeContext req)) = (devicePath, None)"
    and "EnableDataCache ns"
    and "cacheSize = mapGet (stage_PublishContext req) (ContextDataCacheSize ns)"
    and "cacheMode = mapGet (stage_PublishContext req) (ContextDataCacheMode ns)"
    and "cacheSize \<noteq> [] \<or> cacheMode \<noteq> []"
  shows "(GetName ns \<noteq> [] \<and> ValidateDataCacheConfig ns cacheMode cacheSize \<noteq> None \<longrightarrow>
            NodeStageVolume ns req st =
              (Inl (if DataCacheEnabledNodePool ns then DataLoss else InvalidArgument), st))
       \<and> (GetName ns = [] \<longrightarrow> NodeStageVolume ns req st = (Inl InvalidArgument, st))"
  using assms
  by (auto simp: NodeStageVolume_def NodeStageVolume_locked_def NodeStageVolume_dataCache_def
        withVolumeLock_free Let_def)

theorem NodeStageVolume_invalid_cache_config_witness:
  "NodeStageVolume (cacheServer True ''node-1'') (cacheRequest ''bogus'') emptyState
     = (Inl DataLoss, emptyState)
   \<and> NodeStageVolume (cacheServer False ''node-1'') (cacheRequest ''bogus'') emptyState
     = (Inl InvalidArgument, emptyState)
   \<and> NodeStageVolume (cacheServer True []) (cacheRequest ''bogus'') emptyState
     = (Inl InvalidArgument, emptyState)
   \<and> NodeStageVolume (cacheServer False []) (cacheRequest ''writeback'') emptyState
     = (Inl InvalidArgument, emptyState)"
proof -
  have reach: "stage_VolumeId (cacheRequest m) \<noteq> []"
    "stage_StagingTargetPath (cacheRequest m) \<noteq> []"
    "stage_VolumeCapability (cacheRequest m)
       = Some \<lparr>AccessType = MountAccess ''ext4'' [], AccessMode = 1\<rparr>"
    "stage_VolumeId (cacheRequest m) \<notin> volumeLocks emptyState"
    "validateVolumeCapability (cacheServer pool name)
       \<lparr>AccessType = MountAccess ''ext4'' [], AccessMode = 1\<rparr> = None"
    "VolumeIDToKey (cacheServer pool name) (stage_VolumeId (cacheRequest m)) = None"
    "getDevicePath (cacheServer pool name) (trace emptyState) (stage_VolumeId (cacheRequest m))
       (lookupPartition (cacheServer pool name) (stage_VolumeContext (cacheRequest m)))
       = (''/dev/sdb'', None)"
    "EnableDataCache (cacheServer pool name)"
    "''50'' = mapGet (stage_PublishContext (cacheRequest m))
               (ContextDataCacheSize (cacheServer pool name))"
    "m = mapGet (stage_PublishContext (cacheRequest m))
           (ContextDataCacheMode (cacheServer pool name))"
    "''50'' \<noteq> [] \<or> m \<noteq> []" for m pool name
    by (simp_all add: cacheServer_def cacheRequest_def example_defs lookupPartition_def mapGet_def)
  note t = NodeStageVolume_invalid_cache_config [OF reach]
  have named: "NodeStageVolume (cacheServer pool ''node-1'') (cacheRequest ''bogus'') emptyState
          = (Inl (if DataCacheEnabledNodePool (cacheServer pool ''node-1'') then DataLoss
                  else InvalidArgument), emptyState)" for pool
    by (rule t [of pool "''node-1''" "''bogus''", THEN conjunct1, rule_format])
       (simp add: cacheServer_def)
  have unnamed: "NodeStageVolume (cacheServer pool []) (cacheRequest m) emptyState
          = (Inl InvalidArgument, emptyState)" for pool m
    by (rule t [of pool "[]" m, THEN conjunct2, rule_format]) (simp add: cacheServer_def)
  from named [of True] named [of False] unnamed [of True "''bogus''"]
    unnamed [of False "''writeback''"]
  show ?thesis
    by (simp add: cacheServer_def)
qed

theorem NodeStageVolume_invalid_cache_config_counterexample:
  "EnableDataCache (cacheServer True []) \<and> DataCacheEnabledNodePool (cacheServer True [])
   \<and> stage_PublishContext (cacheRequest ''bogus'') (ContextDataCacheMode (cacheServer True [])) = Some ''bogus''
   \<and> ValidateDataCacheConfig (cacheServer True []) ''bogus'' ''50'' = Some ''invalid data cache mode''
   \<and> NodeStageVolume (cacheServer True []) (cacheRequest ''bogus'') emptyState
        = (Inl InvalidArgument, emptyState)"
  by (simp add: cacheServer_def cacheRequest_def example_defs stage_defs)

text \<open>
  Claim C9, amended. For a NodeStageVolume request with a mount capability: in a call that
  reaches the parsing of the mount flags (fields given, lock free, capability and volume ID
  accepted, device found, data-cache block passed, staging path not mounted and prepared),
  if the first flag that matches the read-ahead pattern has a value that does not parse as
  an integer or is negative, the call fails with InvalidArgument, and the only effects
  since the call began are a cache set-up and the preparation of the staging path: no
  format or mount was attempted. A flag list with no read-ahead token yields no error from
  the extraction and no read-ahead update in any call. The claim as stated lets any
  matching flag decide; the extraction stops at the first one, so a valid first token hides
  an invalid later one, as the counterexample shows.
\<close>

theorem NodeStageVolume_read_ahead_flag:
  assumes "stage_VolumeCapability req = Some vc"
    and "AccessType vc = MountAccess mntFsType mountFlags"
  shows "(stage_VolumeId req \<noteq> [] \<and> stage_StagingTargetPath req \<noteq> []
          \<and> stage_VolumeId req \<notin> volumeLocks st
          \<and> validateVolumeCapability ns vc = None
          \<and> VolumeIDToKey ns (stage_VolumeId req) = None
          \<and> getDevicePath ns (trace st) (stage_VolumeId req)
               (lookupPartition ns (stage_VolumeContext req)) = (devicePath0, None)
          \<and> NodeStageVolume_dataCache ns req devicePath0
               (st\<lparr>volumeLocks := insert (stage_VolumeId req) (volumeLocks st)\<rparr>) = (Inr devicePath, st1)
          \<and> \<not> isVolumePathMounted ns st1 (stage_StagingTargetPath req)
          \<and> prepareStagePath ns (trace st1) (stage_StagingTargetPath req) = None
          \<and> mountFlags = pre @ tok # post
          \<and> (\<forall>f \<in> set pre. readAheadKBMountFlagRegex f = None)
          \<and> readAheadKBMountFlagRegex tok = Some v
          \<and> (ParseInt v = None \<or> (\<exists>n. ParseInt v = Some n \<and> n < 0))
          \<longrightarrow>
            fst (NodeStageVolume ns req st) = Inl InvalidArgument
            \<and> trace (snd (NodeStageVolume ns req st))
                 = trace st1 @ [PrepareStagePathEv (stage_StagingTargetPath req)]
            \<and> (\<exists>evs. trace st1 = trace st @ evs \<and> (\<forall>ev \<in> set evs. \<exists>d n. ev = SetupCachingEv d n)))
       \<and> ((\<forall>f \<in> set mountFlags. readAheadKBMountFlagRegex f = None) \<longrightarrow>
            extractReadAheadKBMountFlag mountFlags = (-1, False, None)
            \<and> (\<exists>evs. trace (snd (NodeStageVolume ns req st)) = trace st @ evs
                  \<and> (\<forall>d kb. SetReadAheadKBEv d kb \<notin> set evs)))"
proof (intro conjI impI)
  assume a: "stage_VolumeId req \<noteq> [] \<and> stage_StagingTargetPath req \<noteq> []
          \<and> stage_VolumeId req \<notin> volumeLocks st
          \<and> validateVolumeCapability ns vc = None
          \<and> VolumeIDToKey ns (stage_VolumeId req) = None
          \<and> getDevicePath ns (trace st) (stage_VolumeId req)
               (lookupPartition ns (stage_VolumeContext req)) = (devicePath0, None)
          \<and> NodeStageVolume_dataCache ns req devicePath0
               (st\<lparr>volumeLocks := insert (stage_VolumeId req) (volumeLocks st)\<rparr>) = (Inr devicePath, st1)
          \<and> \<not> isVolumePathMounted ns st1 (stage_StagingTargetPath req)
          \<and> prepareStagePath ns (trace st1) (stage_StagingTargetPath req) = None
          \<and> mountFlags = pre @ tok # post
          \<and> (\<forall>f \<in> set pre. readAheadKBMountFlagRegex f = None)
          \<and> readAheadKBMountFlagRegex tok = Some v
          \<and> (ParseInt v = None \<or> (\<exists>n. ParseInt v = Some n \<and> n < 0))"
  then have x: "\<exists>kb should e. extractReadAheadKBMountFlag mountFlags = (kb, should, Some e)"
    using extractReadAheadKBMountFlag_first [of pre tok v post] by auto
  have m: "NodeStageVolume ns req st =
           (case NodeStageVolume_mount ns (stage_StagingTargetPath req) vc devicePath st1 of
              (r, st2) \<Rightarrow> (r, st2\<lparr>volumeLocks := volumeLocks st2 - {stage_VolumeId req}\<rparr>))"
    by (rule NodeStageVolume_reach_mount) (use a assms(1) in blast)+
  from x a assms(2)
  have n: "NodeStageVolume_mount ns (stage_StagingTargetPath req) vc devicePath st1
            = (Inl InvalidArgument, log (PrepareStagePathEv (stage_StagingTargetPath req)) st1)"
    by (auto simp: NodeStageVolume_mount_def Let_def)
  show "fst (NodeStageVolume ns req st) = Inl InvalidArgument" by (simp add: m n)
  show "trace (snd (NodeStageVolume ns req st))
                 = trace st1 @ [PrepareStagePathEv (stage_StagingTargetPath req)]"
    by (simp add: m n log_def)
  from a have "NodeStageVolume_dataCache ns req devicePath0
               (st\<lparr>volumeLocks := insert (stage_VolumeId req) (volumeLocks st)\<rparr>) = (Inr devicePath, st1)"
    by simp
  from NodeStageVolume_dataCache_trace [OF this]
  show "\<exists>evs. trace st1 = trace st @ evs \<and> (\<forall>ev \<in> set evs. \<exists>d n. ev = SetupCachingEv d n)"
    by simp
next
  assume b: "\<forall>f \<in> set mountFlags. readAheadKBMountFlagRegex f = None"
  then show e: "extractReadAheadKBMountFlag mountFlags = (-1, False, None)"
    by (rule extractReadAheadKBMountFlag_none)
  from NodeStageVolume_extends_mount [OF assms, of st ns]
  obtain evs where evs: "snd (NodeStageVolume ns req st) = st\<lparr>trace := trace st @ evs\<rparr>"
    "list_all (stageEventOk mntFsType mountFlags) evs"
    by (auto simp: extends_def)
  have "SetReadAheadKBEv d kb \<notin> set evs" for d kb
  proof
    assume "SetReadAheadKBEv d kb \<in> set evs"
    with evs(2) have "stageEventOk mntFsType mountFlags (SetReadAheadKBEv d kb)"
      by (simp add: list_all_iff)
    with e show False by (simp add: stageEventOk_def)
  qed
  with evs(1) show "\<exists>evs. trace (snd (NodeStageVolume ns req st)) = trace st @ evs
                  \<and> (\<forall>d kb. SetReadAheadKBEv d kb \<notin> set evs)"
    by auto
qed


theorem NodeStageVolume_read_ahead_flag_witness:
  "fst (NodeStageVolume exampleServer (stageRequest ''ext4'' [''noatime'', ''read_ahead_kb=abc''] 1)
          emptyState) = Inl InvalidArgument
   \<and> trace (snd (NodeStageVolume exampleServer
          (stageRequest ''ext4'' [''noatime'', ''read_ahead_kb=abc''] 1) emptyState))
        = [PrepareStagePathEv ''/staging'']
   \<and> extractReadAheadKBMountFlag [''noatime'', ''discard''] = (-1, False, None)"
proof -
  let ?flags = "[''noatime'', ''read_ahead_kb=abc'']"
  let ?req = "stageRequest ''ext4'' ?flags 1"
  let ?vc = "\<lparr>AccessType = MountAccess ''ext4'' ?flags, AccessMode = 1\<rparr>"
  have c1: "stage_VolumeCapability ?req = Some ?vc" by (simp add: stageRequest_def)
  have c2: "AccessType ?vc = MountAccess ''ext4'' ?flags" by simp
  note t = NodeStageVolume_read_ahead_flag [
      where ns = exampleServer and st = emptyState and ?devicePath0.0 = "''/dev/sdb''"
        and devicePath = "''/dev/sdb''"
        and ?st1.0 = "emptyState\<lparr>volumeLocks := {''projects/p/zones/z/disks/d''}\<rparr>"
        and pre = "[''noatime'']" and tok = "''read_ahead_kb=abc''" and post = "[]" and v = "''abc''",
      OF c1 c2, THEN conjunct1, rule_format]
  have p: "fst (NodeStageVolume exampleServer ?req emptyState) = Inl InvalidArgument
        \<and> trace (snd (NodeStageVolume exampleServer ?req emptyState))
             = trace (emptyState\<lparr>volumeLocks := {''projects/p/zones/z/disks/d''}\<rparr>)
                 @ [PrepareStagePathEv (stage_StagingTargetPath ?req)]"
  proof -
    have "fst (NodeStageVolume exampleServer ?req emptyState) = Inl InvalidArgument
            \<and> trace (snd (NodeStageVolume exampleServer ?req emptyState))
                 =  trace (emptyState\<lparr>volumeLocks := {''projects/p/zones/z/disks/d''}\<rparr>)
                 @ [PrepareStagePathEv (stage_StagingTargetPath ?req)]
            \<and> (\<exists>evs. trace (emptyState\<lparr>volumeLocks := {''projects/p/zones/z/disks/d''}\<rparr>)
                   = trace emptyState @ evs \<and> (\<forall>ev \<in> set evs. \<exists>d n. ev = SetupCachingEv d n))"
      by (rule t)
         (simp add: example_defs NodeStageVolume_dataCache_def isVolumePathMounted_def lookupPartition_def
            mapGet_def readAheadKBMountFlagRegex_def ParseInt_def ParseUint_def isDigit_def Let_def)
    then show ?thesis by blast
  qed
  note u = NodeStageVolume_read_ahead_flag [
      where mountFlags = "[''noatime'', ''discard'']" and req = "stageRequest ''ext4'' [''noatime'', ''discard''] 1"
        and vc = "\<lparr>AccessType = MountAccess ''ext4'' [''noatime'', ''discard''], AccessMode = 1\<rparr>"
        and mntFsType = "''ext4''", THEN conjunct2, rule_format, THEN conjunct1]
  have q: "extractReadAheadKBMountFlag [''noatime'', ''discard''] = (-1, False, None)"
    by (rule u) (auto simp: stageRequest_def readAheadKBMountFlagRegex_def)
  from p q show ?thesis
    by (simp add: emptyState_def stageRequest_def)
qed


theorem NodeStageVolume_read_ahead_flag_counterexample:
  "readAheadKBMountFlagRegex ''read_ahead_kb=-1'' = Some ''-1''
   \<and> ParseInt ''-1'' = Some (-1)
   \<and> NodeStageVolume exampleServer
        (stageRequest ''ext4'' [''read_ahead_kb=128'', ''read_ahead_kb=-1''] 1) emptyState
     = (Inr (), emptyState\<lparr>trace := [PrepareStagePathEv ''/staging'',
          FormatAndMountEv ''/dev/sdb'' ''/staging'' ''ext4'' [],
          ResizeEv ''/dev/sdb'' ''/staging'',
          SetReadAheadKBEv ''/dev/sdb'' 128]\<rparr>)"
  by (simp add: example_defs stage_defs)


subsection \<open>The four lifecycle operations\<close>

text \<open>
  Claim C1, amended. For NodeStageVolume, NodePublishVolume, NodeUnpublishVolume and
  NodeUnstageVolume and every volume ID whose lock is already held: a request with all its
  required fields returns Aborted, a request that lacks a required field returns
  InvalidArgument (the required fields are checked before the lock is tried), and in both
  cases the state is left as it was: no device, mount or tracker effect. Every call leaves
  the lock set as it found it, so a call that acquires the lock has released it when it
  returns, on success and on every failure, validation failures after the acquisition
  included. The claim as stated promises Aborted for every request on a held lock; the
  counterexample is an unstage request without a staging path.
\<close>

theorem volume_lock_discipline:
  "(stage_VolumeId sreq \<in> volumeLocks st \<longrightarrow>
      NodeStageVolume ns sreq st =
        (Inl (if stage_VolumeId sreq \<noteq> [] \<and> stage_StagingTargetPath sreq \<noteq> []
                  \<and> stage_VolumeCapability sreq \<noteq> None
              then Aborted else InvalidArgument), st))
   \<and> (publish_VolumeId preq \<in> volumeLocks st \<longrightarrow>
      NodePublishVolume ns preq st =
        (Inl (if publish_VolumeId preq \<noteq> [] \<and> publish_StagingTargetPath preq \<noteq> []
                  \<and> publish_TargetPath preq \<noteq> [] \<and> publish_VolumeCapability preq \<noteq> None
              then Aborted else InvalidArgument), st))
   \<and> (unpublish_VolumeId ureq \<in> volumeLocks st \<longrightarrow>
      NodeUnpublishVolume ns ureq st =
        (Inl (if unpublish_VolumeId ureq \<noteq> [] \<and> unpublish_TargetPath ureq \<noteq> []
              then Aborted else InvalidArgument), st))
   \<and> (unstage_VolumeId treq \<in> volumeLocks st \<longrightarrow>
      NodeUnstageVolume ns treq st =
        (Inl (if unstage_VolumeId treq \<noteq> [] \<and> unstage_StagingTargetPath treq \<noteq> []
              then Aborted else InvalidArgument), st))
   \<and> volumeLocks (snd (NodeStageVolume ns sreq st)) = volumeLocks st
   \<and> volumeLocks (snd (NodePublishVolume ns preq st)) = volumeLocks st
   \<and> volumeLocks (snd (NodeUnpublishVolume ns ureq st)) = volumeLocks st
   \<and> volumeLocks (snd (NodeUnstageVolume ns treq st)) = volumeLocks st"
proof (intro conjI impI)
  assume "stage_VolumeId sreq \<in> volumeLocks st"
  then show "NodeStageVolume ns sreq st =
        (Inl (if stage_VolumeId sreq \<noteq> [] \<and> stage_StagingTargetPath sreq \<noteq> []
                  \<and> stage_VolumeCapability sreq \<noteq> None
              then Aborted else InvalidArgument), st)"
    by (auto simp: NodeStageVolume_def Let_def withVolumeLock_held split: option.splits)
next
  assume "publish_VolumeId preq \<in> volumeLocks st"
  then show "NodePublishVolume ns preq st =
        (Inl (if publish_VolumeId preq \<noteq> [] \<and> publish_StagingTargetPath preq \<noteq> []
                  \<and> publish_TargetPath preq \<noteq> [] \<and> publish_VolumeCapability preq \<noteq> None
              then Aborted else InvalidArgument), st)"
    by (auto simp: NodePublishVolume_def Let_def withVolumeLock_held split: option.splits)
next
  assume "unpublish_VolumeId ureq \<in> volumeLocks st"
  then show "NodeUnpublishVolume ns ureq st =
        (Inl (if unpublish_VolumeId ureq \<noteq> [] \<and> unpublish_TargetPath ureq \<noteq> []
              then Aborted else InvalidArgument), st)"
    by (auto simp: NodeUnpublishVolume_def Let_def withVolumeLock_held)
next
  assume "unstage_VolumeId treq \<in> volumeLocks st"
  then show "NodeUnstageVolume ns treq st =
        (Inl (if unstage_VolumeId treq \<noteq> [] \<and> unstage_StagingTargetPath treq \<noteq> []
              then Aborted else InvalidArgument), st)"
    by (auto simp: NodeUnstageVolume_def Let_def withVolumeLock_held)
qed (rule NodeStageVolume_locks NodePublishVolume_locks NodeUnpublishVolume_locks
       NodeUnstageVolume_locks)+


theorem volume_lock_discipline_witness:
  "NodeStageVolume exampleServer (stageRequest ''ext4'' [] 1) lockedState = (Inl Aborted, lockedState)
   \<and> NodePublishVolume exampleServer publishRequest lockedState = (Inl Aborted, lockedState)
   \<and> NodeUnpublishVolume exampleServer unpublishRequest lockedState = (Inl Aborted, lockedState)
   \<and> NodeUnstageVolume exampleServer (unstageRequest ''/staging'') lockedState = (Inl Aborted, lockedState)
   \<and> NodeStageVolume (exampleServer\<lparr>validateVolumeCapability := (\<lambda>vc. Some ''invalid'')\<rparr>)
        (stageRequest ''ext4'' [] 1) emptyState = (Inl InvalidArgument, emptyState)
   \<and> volumeLocks (snd (NodeUnstageVolume exampleServer (unstageRequest ''/staging'') emptyState)) = {}"
  using volume_lock_discipline [of "stageRequest ''ext4'' [] 1" lockedState exampleServer
          publishRequest unpublishRequest "unstageRequest ''/staging''"]
        volume_lock_discipline [of "stageRequest ''ext4'' [] 1" emptyState
          "exampleServer\<lparr>validateVolumeCapability := (\<lambda>vc. Some ''invalid'')\<rparr>"
          publishRequest unpublishRequest "unstageRequest ''/staging''"]
        volume_lock_discipline [of "stageRequest ''ext4'' [] 1" emptyState exampleServer
          publishRequest unpublishRequest "unstageRequest ''/staging''"]
  by (simp add: lockedState_def example_defs unstageRequest_def unpublishRequest_def publishRequest_def
        stage_defs)

theorem volume_lock_discipline_counterexample:
  "unstage_VolumeId (unstageRequest []) \<in> volumeLocks lockedState
   \<and> NodeUnstageVolume exampleServer (unstageRequest []) lockedState = (Inl InvalidArgument, lockedState)"
  by (simp add: lockedState_def example_defs unstageRequest_def lifecycle_defs)

text \<open>
  Claim C2, amended. In a NodeUnstageVolume call with the in-use check enabled that has
  unmounted the staging path (fields given, lock free, unmount done), for the volume ID of
  the request: if the device path cannot be resolved, its symbolic links cannot be
  evaluated or the in-use query fails, or if the device is not in use, the record of the
  volume is cleared and the call goes on to the cache teardown; if the device is in use and
  there is no record, a record with the current time is created and the call fails with
  Internal; if it is in use and the record is younger than the timeout, the call fails with
  Internal and the record stays; if it is in use and the age of the record has reached the
  timeout, the record is cleared and the call goes on to the cache teardown. Going on to
  the teardown means success, unless both data-cache flags are set and the teardown fails:
  then the call returns DataLoss, which the claim as stated (the call succeeds) leaves out,
  as the counterexample shows. The records of other volumes are not touched.
\<close>

theorem NodeUnstageVolume_device_in_use:
  assumes "unstage_VolumeId req = volumeID"
    and "volumeID \<noteq> []"
    and "unstage_StagingTargetPath req = stagingTargetPath"
    and "stagingTargetPath \<noteq> []"
    and "volumeID \<notin> volumeLocks st"
    and "cleanupStagePath ns (trace st) stagingTargetPath = None"
    and "enableDeviceInUseCheck ns"
    and "h = trace st @ [CleanupStagePathEv stagingTargetPath]"
    and "getDevicePath ns h volumeID [] = (devicePath, pathErr)"
    and "EvalSymlinks ns h devicePath = (devFsPath, linkErr)"
    and "IsDeviceFilesystemInUse ns h devicePath devFsPath = (inUse, queryErr)"
    and "checked = (pathErr = None \<and> linkErr = None \<and> queryErr = None)"
    and "teardown = (if EnableDataCache ns \<and> DataCacheEnabledNodePool ns
                        \<and> cleanupCache ns h volumeID (GetName ns) \<noteq> None
                     then Inl DataLoss else Inr ())"
    and "R = NodeUnstageVolume ns req st"
  shows "(\<not> checked \<or> \<not> inUse \<longrightarrow>
            fst R = teardown \<and> deviceInUseErrors (snd R) volumeID = None)
       \<and> (checked \<and> inUse \<and> deviceInUseErrors st volumeID = None \<longrightarrow>
            fst R = Inl Internal \<and> deviceInUseErrors (snd R) volumeID = Some (timeNow ns))
       \<and> (\<forall>t. checked \<and> inUse \<and> deviceInUseErrors st volumeID = Some t
              \<and> timeNow ns - t < deviceInUseTimeout ns \<longrightarrow>
            fst R = Inl Internal \<and> deviceInUseErrors (snd R) volumeID = Some t)
       \<and> (\<forall>t. checked \<and> inUse \<and> deviceInUseErrors st volumeID = Some t
              \<and> deviceInUseTimeout ns \<le> timeNow ns - t \<longrightarrow>
            fst R = teardown \<and> deviceInUseErrors (snd R) volumeID = None)
       \<and> (\<forall>k. k \<noteq> volumeID \<longrightarrow> deviceInUseErrors (snd R) k = deviceInUseErrors st k)"
proof -
  let ?st1 = "st\<lparr>volumeLocks := insert volumeID (volumeLocks st),
                  trace := trace st @ [CleanupStagePathEv stagingTargetPath]\<rparr>"
  have t: "trace ?st1 = h" using assms(8) by simp
  note r = NodeUnstageVolume_reach_check [OF assms(1-6)]
  note d = NodeUnstageVolume_deviceInUse_cases [of ns ?st1 volumeID devicePath pathErr devFsPath linkErr
              inUse queryErr, unfolded t, OF assms(7,9-11)]
  show ?thesis
    unfolding assms(14) r d
    using assms(12,13) t
    by (auto split: option.splits)
qed

theorem NodeUnstageVolume_device_in_use_witness:
  "fst (NodeUnstageVolume (inUseServer 100) (unstageRequest ''/staging'') emptyState) = Inl Internal
   \<and> deviceInUseErrors (snd (NodeUnstageVolume (inUseServer 100) (unstageRequest ''/staging'') emptyState))
        ''projects/p/zones/z/disks/d'' = Some 100
   \<and> fst (NodeUnstageVolume (inUseServer 129) (unstageRequest ''/staging'') (recordedState 100))
        = Inl Internal
   \<and> deviceInUseErrors (snd (NodeUnstageVolume (inUseServer 129) (unstageRequest ''/staging'')
        (recordedState 100))) ''projects/p/zones/z/disks/d'' = Some 100
   \<and> fst (NodeUnstageVolume (inUseServer 130) (unstageRequest ''/staging'') (recordedState 100))
        = Inr ()
   \<and> deviceInUseErrors (snd (NodeUnstageVolume (inUseServer 130) (unstageRequest ''/staging'')
        (recordedState 100))) ''projects/p/zones/z/disks/d'' = None
   \<and> fst (NodeUnstageVolume exampleServer (unstageRequest ''/staging'') (recordedState 100)) = Inr ()
   \<and> deviceInUseErrors (snd (NodeUnstageVolume exampleServer (unstageRequest ''/staging'')
        (recordedState 100))) ''projects/p/zones/z/disks/d'' = None
   \<and> fst (NodeUnstageVolume devicePathFails (unstageRequest ''/staging'') (recordedState 100)) = Inr ()
   \<and> deviceInUseErrors (snd (NodeUnstageVolume devicePathFails (unstageRequest ''/staging'')
        (recordedState 100))) ''projects/p/zones/z/disks/d'' = None"
  using NodeUnstageVolume_device_in_use
          [where ns = "inUseServer 100" and req = "unstageRequest ''/staging''" and st = emptyState
             and volumeID = "''projects/p/zones/z/disks/d''" and stagingTargetPath = "''/staging''"
             and h = "[CleanupStagePathEv ''/staging'']" and devicePath = "''/dev/sdb''"
             and pathErr = None and devFsPath = "''/dev/sdb''" and linkErr = None and inUse = True
             and queryErr = None and checked = True and teardown = "Inr ()"
             and R = "NodeUnstageVolume (inUseServer 100) (unstageRequest ''/staging'') emptyState"]
        NodeUnstageVolume_device_in_use
          [where ns = "inUseServer 129" and req = "unstageRequest ''/staging''" and st = "recordedState 100"
             and volumeID = "''projects/p/zones/z/disks/d''" and stagingTargetPath = "''/staging''"
             and h = "[CleanupStagePathEv ''/staging'']" and devicePath = "''/dev/sdb''"
             and pathErr = None and devFsPath = "''/dev/sdb''" and linkErr = None and inUse = True
             and queryErr = None and checked = True and teardown = "Inr ()"
             and R = "NodeUnstageVolume (inUseServer 129) (unstageRequest ''/staging'') (recordedState 100)"]
        NodeUnstageVolume_device_in_use
          [where ns = "inUseServer 130" and req = "unstageRequest ''/staging''" and st = "recordedState 100"
             and volumeID = "''projects/p/zones/z/disks/d''" and stagingTargetPath = "''/staging''"
             and h = "[CleanupStagePathEv ''/staging'']" and devicePath = "''/dev/sdb''"
             and pathErr = None and devFsPath = "''/dev/sdb''" and linkErr = None and inUse = True
             and queryErr = None and checked = True and teardown = "Inr ()"
             and R = "NodeUnstageVolume (inUseServer 130) (unstageRequest ''/staging'') (recordedState 100)"]
        NodeUnstageVolume_device_in_use
          [where ns = exampleServer and req = "unstageRequest ''/staging''" and st = "recordedState 100"
             and volumeID = "''projects/p/zones/z/disks/d''" and stagingTargetPath = "''/staging''"
             and h = "[CleanupStagePathEv ''/staging'']" and devicePath = "''/dev/sdb''"
             and pathErr = None and devFsPath = "''/dev/sdb''" and linkErr = None and inUse = False
             and queryErr = None and checked = True and teardown = "Inr ()"
             and R = "NodeUnstageVolume exampleServer (unstageRequest ''/staging'') (recordedState 100)"]
        NodeUnstageVolume_device_in_use
          [where ns = devicePathFails and req = "unstageRequest ''/staging''" and st = "recordedState 100"
             and volumeID = "''projects/p/zones/z/disks/d''" and stagingTargetPath = "''/staging''"
             and h = "[CleanupStagePathEv ''/staging'']" and devicePath = "[]"
             and pathErr = "Some ''device not found''" and devFsPath = "[]" and linkErr = None
             and inUse = False and queryErr = None and checked = False and teardown = "Inr ()"
             and R = "NodeUnstageVolume devicePathFails (unstageRequest ''/staging'') (recordedState 100)"]
  by (simp add: inUseServer_def devicePathFails_def recordedState_def unstageRequest_def
        exampleServer_def emptyState_def)

theorem NodeUnstageVolume_device_in_use_counterexample:
  "enableDeviceInUseCheck cacheTeardownFails
   \<and> getDevicePath cacheTeardownFails [CleanupStagePathEv ''/staging''] ''projects/p/zones/z/disks/d'' []
        = ([], Some ''device not found'')
   \<and> NodeUnstageVolume cacheTeardownFails (unstageRequest ''/staging'') emptyState
        = (Inl DataLoss, emptyState\<lparr>trace := [CleanupStagePathEv ''/staging'',
             CleanupCacheEv ''projects/p/zones/z/disks/d'' ''node-1'']\<rparr>)"
  by (simp add: cacheTeardownFails_def unstageRequest_def exampleServer_def emptyState_def
        lifecycle_defs withVolumeLock_def TryAcquire_def Release_def log_def Let_def)

end
